theory Spec2Isabelle
  imports Main "HOL-Library.Sublist"
begin

section \<open>Python values, strings and exceptions\<close>

text \<open>
  The program is \<^verbatim>\<open>src/app.py\<close>: a search call (\<^verbatim>\<open>buscar_links_google\<close>), a
  completion call wrapped in a retry decorator (\<^verbatim>\<open>generate_content_with_retry_rest\<close>)
  and the orchestration of both (\<^verbatim>\<open>resumir_com_gemini\<close>).

  A Python \<^verbatim>\<open>str\<close> is modelled as a \<open>string\<close> holding its UTF-8 bytes, so a letter
  outside ASCII is two or more \<open>char\<close>s; equality, concatenation and the substring test
  agree with Python's on the code points. Indexing and iterating a string go through
  \<open>utf8_chars\<close>, which cuts the bytes into code points.

  A value that comes out of \<^verbatim>\<open>response.json()\<close> is a \<open>json\<close>. A \<open>JObj\<close> lists the
  items of a Python \<^verbatim>\<open>dict\<close> in order, looked up with \<open>map_of\<close>. A float is kept as
  mantissa and binary exponent; the program only ever tests it for zero.
\<close>

datatype json =
    JNull
  | JBool bool
  | JInt int
  | JFloat int int
  | JStr string
  | JArr "json list"
  | JObj "(string \<times> json) list"

datatype key = KStr string | KInt int

record response =
  status_code :: int
  reason :: string
  url :: string
  json_body :: "string + json"

text \<open>
  \<open>json_body r = Inl msg\<close> says that \<^verbatim>\<open>r.json()\<close> raises \<^verbatim>\<open>JSONDecodeError(msg)\<close>;
  \<open>Inr j\<close> that it returns \<open>j\<close>.

  Exceptions are values. Only subclasses of \<^verbatim>\<open>Exception\<close> are modelled (no
  \<^verbatim>\<open>KeyboardInterrupt\<close>). \<open>OtherError c m\<close> is an exception of class \<open>c\<close> that is not
  an \<^verbatim>\<open>HTTPError\<close>, with \<^verbatim>\<open>str(e) = m\<close>: what \<^verbatim>\<open>requests.post\<close> and
  \<^verbatim>\<open>requests.get\<close> raise when no response arrives. \<open>RetryError e a\<close> is tenacity's
  \<^verbatim>\<open>RetryError\<close>, holding the last attempt (a \<^verbatim>\<open>Future\<close> object at address \<open>a\<close> that
  raised \<open>e\<close>).
\<close>

datatype exn =
    HTTPError string response
  | JSONDecodeError string
  | KeyError key
  | IndexError string
  | TypeError string
  | OtherError string string
  | RetryError exn nat

fun is_HTTPError :: "exn \<Rightarrow> bool" where
  "is_HTTPError (HTTPError m r) = True"
| "is_HTTPError e = False"

text \<open>Python's class \<^verbatim>\<open>LookupError\<close> has the subclasses \<^verbatim>\<open>KeyError\<close> and \<^verbatim>\<open>IndexError\<close>.\<close>

fun is_LookupError :: "exn \<Rightarrow> bool" where
  "is_LookupError (KeyError k) = True"
| "is_LookupError (IndexError m) = True"
| "is_LookupError e = False"

text \<open>\<^verbatim>\<open>str\<close> of an integer, and the digits of \<^verbatim>\<open>'%#x' % n\<close>.\<close>

fun str_nat :: "nat \<Rightarrow> string" where
  "str_nat n = (if n < 10 then [''0123456789'' ! n]
                else str_nat (n div 10) @ [''0123456789'' ! (n mod 10)])"

declare str_nat.simps [simp del]

definition str_int :: "int \<Rightarrow> string" where
  "str_int i = (if i < 0 then ''-'' @ str_nat (nat (- i)) else str_nat (nat i))"

fun hex_nat :: "nat \<Rightarrow> string" where
  "hex_nat n = (if n < 16 then [''0123456789abcdef'' ! n]
                else hex_nat (n div 16) @ [''0123456789abcdef'' ! (n mod 16)])"

declare hex_nat.simps [simp del]

definition quote :: string where
  "quote = [CHR 0x27]"

text \<open>
  \<^verbatim>\<open>repr\<close> of a subscript. For a string key this is the key between single quotes, which
  is what Python prints for the keys the program uses (plain words).
\<close>

fun key_repr :: "key \<Rightarrow> string" where
  "key_repr (KStr s) = quote @ s @ quote"
| "key_repr (KInt i) = str_int i"

text \<open>\<^verbatim>\<open>type(e).__name__\<close> and \<^verbatim>\<open>str(e)\<close>.\<close>

fun exn_name :: "exn \<Rightarrow> string" where
  "exn_name (HTTPError m r) = ''HTTPError''"
| "exn_name (JSONDecodeError m) = ''JSONDecodeError''"
| "exn_name (KeyError k) = ''KeyError''"
| "exn_name (IndexError m) = ''IndexError''"
| "exn_name (TypeError m) = ''TypeError''"
| "exn_name (OtherError c m) = c"
| "exn_name (RetryError e a) = ''RetryError''"

fun exn_str :: "exn \<Rightarrow> string" where
  "exn_str (HTTPError m r) = m"
| "exn_str (JSONDecodeError m) = m"
| "exn_str (KeyError k) = key_repr k"
| "exn_str (IndexError m) = m"
| "exn_str (TypeError m) = m"
| "exn_str (OtherError c m) = m"
| "exn_str (RetryError e a) =
     ''RetryError[<Future at 0x'' @ hex_nat a @ '' state=finished raised '' @ exn_name e @ ''>]''"

subsection \<open>The operators the program applies to parsed JSON\<close>

fun py_type_name :: "json \<Rightarrow> string" where
  "py_type_name JNull = ''NoneType''"
| "py_type_name (JBool b) = ''bool''"
| "py_type_name (JInt i) = ''int''"
| "py_type_name (JFloat m e) = ''float''"
| "py_type_name (JStr s) = ''str''"
| "py_type_name (JArr xs) = ''list''"
| "py_type_name (JObj kvs) = ''dict''"

text \<open>Truth value of an object, as \<^verbatim>\<open>if x:\<close> and \<^verbatim>\<open>and\<close> test it.\<close>

fun py_truthy :: "json \<Rightarrow> bool" where
  "py_truthy JNull = False"
| "py_truthy (JBool b) = b"
| "py_truthy (JInt i) = (i \<noteq> 0)"
| "py_truthy (JFloat m e) = (m \<noteq> 0)"
| "py_truthy (JStr s) = (s \<noteq> [])"
| "py_truthy (JArr xs) = (xs \<noteq> [])"
| "py_truthy (JObj kvs) = (kvs \<noteq> [])"

definition is_cont :: "char \<Rightarrow> bool" where
  "is_cont c = (128 \<le> (of_char c :: nat) \<and> (of_char c :: nat) < 192)"

function utf8_chars :: "string \<Rightarrow> string list" where
  "utf8_chars [] = []"
| "utf8_chars (c # cs) = (c # takeWhile is_cont cs) # utf8_chars (dropWhile is_cont cs)"
  by pat_completeness auto
termination
  by (relation "measure length") (auto simp: length_dropWhile_le less_Suc_eq_le)

text \<open>Python indexing of a sequence: a negative index counts from the end.\<close>

definition py_index :: "'a list \<Rightarrow> int \<Rightarrow> 'a option" where
  "py_index xs i =
     (if 0 \<le> i \<and> i < int (length xs) then Some (xs ! nat i)
      else if i < 0 \<and> - i \<le> int (length xs) then Some (xs ! nat (int (length xs) + i))
      else None)"

text \<open>
  \<^verbatim>\<open>v[k]\<close>. The keys of a parsed JSON object are strings, so an integer subscript of a
  dict is a \<^verbatim>\<open>KeyError\<close>. The wording of the \<^verbatim>\<open>TypeError\<close>s is CPython 3.12's.
\<close>

fun py_getitem :: "json \<Rightarrow> key \<Rightarrow> exn + json" where
  "py_getitem (JObj kvs) (KStr s) =
     (case map_of kvs s of Some v \<Rightarrow> Inr v | None \<Rightarrow> Inl (KeyError (KStr s)))"
| "py_getitem (JObj kvs) (KInt i) = Inl (KeyError (KInt i))"
| "py_getitem (JArr xs) (KInt i) =
     (case py_index xs i of Some v \<Rightarrow> Inr v
      | None \<Rightarrow> Inl (IndexError ''list index out of range''))"
| "py_getitem (JArr xs) (KStr s) =
     Inl (TypeError ''list indices must be integers or slices, not str'')"
| "py_getitem (JStr s) (KInt i) =
     (case py_index (utf8_chars s) i of Some c \<Rightarrow> Inr (JStr c)
      | None \<Rightarrow> Inl (IndexError ''string index out of range''))"
| "py_getitem (JStr s) (KStr k) =
     Inl (TypeError (''string indices must be integers, not '' @ quote @ ''str'' @ quote))"
| "py_getitem v k =
     Inl (TypeError (quote @ py_type_name v @ quote @ '' object is not subscriptable''))"

text \<open>\<^verbatim>\<open>"s" in v\<close> for a string \<open>s\<close>.\<close>

fun py_contains :: "string \<Rightarrow> json \<Rightarrow> exn + bool" where
  "py_contains s (JObj kvs) = Inr (map_of kvs s \<noteq> None)"
| "py_contains s (JArr xs) = Inr (JStr s \<in> set xs)"
| "py_contains s (JStr t) = Inr (sublist s t)"
| "py_contains s v =
     Inl (TypeError (''argument of type '' @ quote @ py_type_name v @ quote @ '' is not iterable''))"

text \<open>The items that \<^verbatim>\<open>for item in v\<close> visits.\<close>

fun py_iter :: "json \<Rightarrow> exn + json list" where
  "py_iter (JArr xs) = Inr xs"
| "py_iter (JStr s) = Inr (map JStr (utf8_chars s))"
| "py_iter (JObj kvs) = Inr (map (\<lambda>kv. JStr (fst kv)) kvs)"
| "py_iter v = Inl (TypeError (quote @ py_type_name v @ quote @ '' object is not iterable''))"

text \<open>A chain of subscripts \<^verbatim>\<open>v[k1][k2]...\<close>, left to right, stopping at the first that raises.\<close>

fun subscripts :: "json \<Rightarrow> key list \<Rightarrow> exn + json" where
  "subscripts v [] = Inr v"
| "subscripts v (k # ks) =
     (case py_getitem v k of Inl e \<Rightarrow> Inl e | Inr w \<Rightarrow> subscripts w ks)"

text \<open>\<^verbatim>\<open>sep.join(xs)\<close>.\<close>

fun join :: "string \<Rightarrow> string list \<Rightarrow> string" where
  "join sep [] = []"
| "join sep [x] = x"
| "join sep (x # y # ys) = x @ sep @ join sep (y # ys)"

section \<open>The world outside the program\<close>

text \<open>
  An HTTP request as the program hands it to \<^verbatim>\<open>requests\<close>, and what comes back: a
  response, or an exception that is not an \<^verbatim>\<open>HTTPError\<close> (connection refused, timeout).
  \<open>net E n req\<close> is the fate of the request \<open>req\<close> when \<open>n\<close> requests were issued before
  it, so that successive attempts can meet different answers. The two API keys are the
  module's globals, read from the secrets at start-up. \<open>future_id\<close> is the address
  Python gives the object that holds the outcome of the last attempt of a retried call.
\<close>

datatype http_method = GET | POST

record request =
  req_method :: http_method
  req_url :: string
  req_params :: "(string \<times> json) list"
  req_headers :: "(string \<times> string) list"
  req_json :: "json option"

datatype transport = Reply response | Fails string string

record env =
  google_api_key :: string
  serpapi_api_key :: string
  net :: "nat \<Rightarrow> request \<Rightarrow> transport"
  future_id :: nat

text \<open>
  The effects: the requests issued, the waits between attempts, and the calls to
  streamlit's display functions. A displayed f-string is kept as its parts (literal
  text, a formatted value, a formatted exception). The display calls are taken not to
  raise.
\<close>

datatype fpart = Lit string | Val json | Err exn

datatype st_call =
    St_info "fpart list"
  | St_warning "fpart list"
  | St_error "fpart list"
  | St_success "fpart list"

record trace =
  sent :: "request list"
  slept :: "int list"
  shown :: "st_call list"

definition send :: "env \<Rightarrow> request \<Rightarrow> trace \<Rightarrow> transport \<times> trace" where
  "send E req t = (net E (length (sent t)) req, t\<lparr>sent := sent t @ [req]\<rparr>)"

definition display :: "st_call \<Rightarrow> trace \<Rightarrow> trace" where
  "display c t = t\<lparr>shown := shown t @ [c]\<rparr>"

text \<open>
  \<^verbatim>\<open>Response.raise_for_status\<close> of the requests library: an \<^verbatim>\<open>HTTPError\<close> carrying
  the response for a status from 400 to 599, nothing otherwise.
\<close>

definition raise_for_status :: "response \<Rightarrow> exn + unit" where
  "raise_for_status r =
     (let http_error_msg =
        (if 400 \<le> status_code r \<and> status_code r < 500
         then str_int (status_code r) @ '' Client Error: '' @ reason r @ '' for url: '' @ url r
         else if 500 \<le> status_code r \<and> status_code r < 600
         then str_int (status_code r) @ '' Server Error: '' @ reason r @ '' for url: '' @ url r
         else [])
      in if http_error_msg \<noteq> [] then Inl (HTTPError http_error_msg r) else Inr ())"

definition response_json :: "response \<Rightarrow> exn + json" where
  "response_json r = (case json_body r of Inl m \<Rightarrow> Inl (JSONDecodeError m) | Inr j \<Rightarrow> Inr j)"

section \<open>The completion call\<close>

definition GEMINI_API_ENDPOINT :: string where
  "GEMINI_API_ENDPOINT =
     ''https://generativelanguage.googleapis.com/v1beta/models/gemini-2.0-flash:generateContent''"

definition no_content_sentinel :: string where
  "no_content_sentinel =
     ''N'' @ [CHR 0xC3, CHR 0xA3] @ ''o foi poss'' @ [CHR 0xC3, CHR 0xAD]
     @ ''vel extrair o conte'' @ [CHR 0xC3, CHR 0xBA] @ ''do gerado pelo Gemini.''"

text \<open>
  The body of \<^verbatim>\<open>generate_content_with_retry_rest\<close> from the explicit status test on
  (lines 49 to 57): the test for 429, the parse, and the extraction of the text.
\<close>

definition after_raise_for_status :: "response \<Rightarrow> trace \<Rightarrow> (exn + json) \<times> trace" where
  "after_raise_for_status r t =
     (if status_code r = 429
      then (Inl (HTTPError ''Too Many Requests (429) received.'' r), t)
      else
        (case response_json r of
           Inl e \<Rightarrow> (Inl e, t)
         | Inr j \<Rightarrow>
             (case py_contains ''candidates'' j of
                Inl e \<Rightarrow> (Inl e, t)
              | Inr present \<Rightarrow>
                  (case (if present then py_getitem j (KStr ''candidates'') else Inr (JBool False)) of
                     Inl e \<Rightarrow> (Inl e, t)
                   | Inr c \<Rightarrow>
                       if py_truthy c
                       then (subscripts j [KStr ''candidates'', KInt 0, KStr ''content'',
                                           KStr ''parts'', KInt 0, KStr ''text''], t)
                       else (Inr (JStr no_content_sentinel),
                             display (St_warning
                               [Lit ''AVISO: Resposta Gemini sem candidatos. Detalhes: '', Val j]) t)))))"

text \<open>The request of lines 38 to 46: the prompt as the only text part of the only content.\<close>

definition completion_request :: "env \<Rightarrow> string \<Rightarrow> request" where
  "completion_request E prompt_text =
     (let headers = [(''Content-Type'', ''application/json'')];
          payload = JObj [(''contents'',
                      JArr [JObj [(''parts'', JArr [JObj [(''text'', JStr prompt_text)]])]])]
      in \<lparr>req_method = POST,
          req_url = GEMINI_API_ENDPOINT @ ''?key='' @ google_api_key E,
          req_params = [], req_headers = headers, req_json = Some payload\<rparr>)"

text \<open>One attempt: the whole body of the decorated function (lines 38 to 57).\<close>

definition generate_content_attempt :: "env \<Rightarrow> string \<Rightarrow> trace \<Rightarrow> (exn + json) \<times> trace" where
  "generate_content_attempt E prompt_text t =
     (case send E (completion_request E prompt_text) t of
        (Fails c m, t1) \<Rightarrow> (Inl (OtherError c m), t1)
      | (Reply r, t1) \<Rightarrow>
          (case raise_for_status r of
             Inl e \<Rightarrow> (Inl e, t1)
           | Inr u \<Rightarrow> after_raise_for_status r t1))"

text \<open>
  The decorator (lines 29 to 33) is tenacity's \<^verbatim>\<open>retry\<close> with
  \<^verbatim>\<open>wait_exponential(multiplier=1, min=4, max=10)\<close>, \<^verbatim>\<open>stop_after_attempt(5)\<close> and
  \<^verbatim>\<open>retry_if_exception_type(HTTPError)\<close>; \<^verbatim>\<open>reraise\<close> is not given, so it has its
  default \<^verbatim>\<open>False\<close>. After each attempt tenacity
  \<^item> returns the attempt's value, or re-raises its exception, when the retry predicate
    is false (no exception, or one that is not an \<^verbatim>\<open>HTTPError\<close>);
  \<^item> otherwise, when the stop condition holds (the attempt's number is at least 5),
    raises \<^verbatim>\<open>RetryError\<close> around the last attempt;
  \<^item> otherwise sleeps \<^verbatim>\<open>max(max(0, min), min(multiplier * 2 ** (n - 1), max))\<close>
    for the attempt number \<open>n\<close> and runs the next attempt.
  The waits are whole numbers of seconds here and are kept as integers.
\<close>

definition wait_exponential :: "nat \<Rightarrow> int" where
  "wait_exponential attempt_number =
     max (max 0 4) (min (1 * 2 ^ (attempt_number - 1)) 10)"

definition stop_after_attempt :: "nat \<Rightarrow> bool" where
  "stop_after_attempt attempt_number = (attempt_number \<ge> 5)"

function retrying :: "env \<Rightarrow> string \<Rightarrow> nat \<Rightarrow> trace \<Rightarrow> (exn + json) \<times> trace" where
  "retrying E prompt_text attempt_number t =
     (case generate_content_attempt E prompt_text t of
        (Inr v, t1) \<Rightarrow> (Inr v, t1)
      | (Inl e, t1) \<Rightarrow>
          if \<not> is_HTTPError e then (Inl e, t1)
          else if stop_after_attempt attempt_number
          then (Inl (RetryError e (future_id E)), t1)
          else retrying E prompt_text (attempt_number + 1)
                 (t1\<lparr>slept := slept t1 @ [wait_exponential attempt_number]\<rparr>))"
  by pat_completeness auto
termination
  by (relation "measure (\<lambda>(E, p, n, t). 5 - n)") (auto simp: stop_after_attempt_def)

declare retrying.simps [simp del]

definition generate_content_with_retry_rest ::
    "env \<Rightarrow> string \<Rightarrow> trace \<Rightarrow> (exn + json) \<times> trace" where
  "generate_content_with_retry_rest E prompt_text t = retrying E prompt_text 1 t"

section \<open>The search call\<close>

text \<open>
  In \<^verbatim>\<open>src/app.py\<close> the \<^verbatim>\<open>try:\<close> of line 65 stands at the margin and the lines 66
  to 81 carry dashes where their indentation would be, four for a level. They are read
  as the \<^verbatim>\<open>try\<close> of the function body, whose \<^verbatim>\<open>except\<close> is line 83, and its block, at
  the depth the dashes count.

  The request of lines 66 to 74. The entry \<^verbatim>\<open>"hl"\<close> of \<^verbatim>\<open>params\<close> is the string
  literal \<^verbatim>\<open>"lang"\<close>.
\<close>

definition search_request :: "env \<Rightarrow> string \<Rightarrow> int \<Rightarrow> string \<Rightarrow> request" where
  "search_request E query num_resultados lang =
     (let params = [(''api_key'', JStr (serpapi_api_key E)),
                    (''q'', JStr query),
                    (''num'', JInt num_resultados),
                    (''hl'', JStr ''lang''),
                    (''gl'', JStr ''br'')];
          url = ''https://serpapi.com/search''
      in \<lparr>req_method = GET, req_url = url, req_params = params,
          req_headers = [], req_json = None\<rparr>)"

text \<open>
  The loop of lines 79 to 81 over the items already fetched. \<^verbatim>\<open>resultados\<close> is
  appended to in place, so what was appended before an exception stays in it.
\<close>

fun collect_links :: "json list \<Rightarrow> json list \<Rightarrow> (exn + unit) \<times> json list" where
  "collect_links [] resultados = (Inr (), resultados)"
| "collect_links (item # items) resultados =
     (case py_contains ''link'' item of
        Inl e \<Rightarrow> (Inl e, resultados)
      | Inr present \<Rightarrow>
          if present
          then (case py_getitem item (KStr ''link'') of
                  Inl e \<Rightarrow> (Inl e, resultados)
                | Inr v \<Rightarrow> collect_links items (resultados @ [v]))
          else collect_links items resultados)"

text \<open>The \<^verbatim>\<open>try\<close> block (lines 66 to 82): how it ends, and \<^verbatim>\<open>resultados\<close> at that point.\<close>

definition search_try :: "env \<Rightarrow> string \<Rightarrow> int \<Rightarrow> string \<Rightarrow> json list \<Rightarrow> trace
    \<Rightarrow> (exn + unit) \<times> json list \<times> trace" where
  "search_try E query num_resultados lang resultados t =
     (case send E (search_request E query num_resultados lang) t of
        (Fails c m, t1) \<Rightarrow> (Inl (OtherError c m), resultados, t1)
      | (Reply r, t1) \<Rightarrow>
          (case raise_for_status r of
             Inl e \<Rightarrow> (Inl e, resultados, t1)
           | Inr u \<Rightarrow>
               (case response_json r of
                  Inl e \<Rightarrow> (Inl e, resultados, t1)
                | Inr res \<Rightarrow>
                    (case py_contains ''organic_results'' res of
                       Inl e \<Rightarrow> (Inl e, resultados, t1)
                     | Inr present \<Rightarrow>
                         (case (if present
                                then (case py_getitem res (KStr ''organic_results'') of
                                        Inl e \<Rightarrow> (Inl e, resultados)
                                      | Inr v \<Rightarrow>
                                          (case py_iter v of
                                             Inl e \<Rightarrow> (Inl e, resultados)
                                           | Inr items \<Rightarrow> collect_links items resultados))
                                else (Inr (), resultados)) of
                            (Inl e, resultados') \<Rightarrow> (Inl e, resultados', t1)
                          | (Inr u, resultados') \<Rightarrow>
                              (Inr (), resultados',
                               display (St_success [Lit ''Links encontrados: '',
                                          Val (JInt (int (length resultados')))]) t1))))))"

definition buscar_links_google :: "env \<Rightarrow> string \<Rightarrow> int \<Rightarrow> string \<Rightarrow> trace
    \<Rightarrow> json list \<times> trace" where
  "buscar_links_google E query num_resultados lang t =
     (let t0 = display (St_info [Lit ''Buscando '', Val (JInt num_resultados),
                                 Lit ('' links no Google para: '' @ quote), Val (JStr query),
                                 Lit (quote @ '' (via SerpApi)...'')]) t
      in case search_try E query num_resultados lang [] t0 of
           (Inr u, resultados, t1) \<Rightarrow> (resultados, t1)
         | (Inl e, resultados, t1) \<Rightarrow>
             (resultados,
              display (St_warning [Lit (''Verifique se a sua API Key da SerpApi est''
                         @ [CHR 0xC3, CHR 0xA1] @ '' correta e se voc'' @ [CHR 0xC3, CHR 0xAA]
                         @ '' tem cr'' @ [CHR 0xC3, CHR 0xA9] @ ''ditos.'')])
                (display (St_error [Lit (''ERRO ao buscar links no Google via SerpApi para ''
                                         @ quote), Val (JStr query), Lit (quote @ '': ''), Err e])
                   t1)))"

section \<open>The summary\<close>

definition nl :: string where
  "nl = [CHR 0x0A]"

definition unlines :: "string list \<Rightarrow> string" where
  "unlines ls = concat (map (\<lambda>l. l @ nl) ls)"

text \<open>
  The f-string of lines 98 to 121, cut at its one hole: the text before
  \<^verbatim>\<open>{links_formatados}\<close>, line by line (it opens with the line break after the
  quotes), and the text after it.
\<close>

definition prompt_head_lines :: "string list" where
  "prompt_head_lines =
     [[],
      ''Como um analista de neg'' @ [CHR 0xC3, CHR 0xB3] @ ''cios e intelig''
        @ [CHR 0xC3, CHR 0xAA] @ ''ncia de mercado s'' @ [CHR 0xC3, CHR 0xAA]
        @ ''nior, analise o conte'' @ [CHR 0xC3, CHR 0xBA] @ ''do dos links fornecidos.'',
      ''Seu resumo deve ser conciso, acion'' @ [CHR 0xC3, CHR 0xA1]
        @ ''vel e focar em insights estrat'' @ [CHR 0xC3, CHR 0xA9]
        @ ''gicos sobre a empresa ou t'' @ [CHR 0xC3, CHR 0xB3]
        @ ''pico central para prospec'' @ [CHR 0xC3, CHR 0xA7, CHR 0xC3, CHR 0xA3]
        @ ''o comercial.'',
      [],
      ''Pontos-chave a serem abordados no resumo:'',
      ''-   Desafios Atuais: Obst'' @ [CHR 0xC3, CHR 0xA1]
        @ ''culos, problemas de mercado ou dores que a empresa enfrenta.'',
      ''-   Oportunidades de Mercado: Onde a empresa pode crescer ou inovar?'',
      ''-   Iniciativas Estrat'' @ [CHR 0xC3, CHR 0xA9]
        @ ''gicas: Projetos, parcerias, aquisi'' @ [CHR 0xC3, CHR 0xA7, CHR 0xC3, CHR 0xB5]
        @ ''es ou lan'' @ [CHR 0xC3, CHR 0xA7] @ ''amentos recentes.'',
      ''-   Pontos de Dor Relevantes: Problemas espec'' @ [CHR 0xC3, CHR 0xAD]
        @ ''ficos que nossos produtos/servi'' @ [CHR 0xC3, CHR 0xA7] @ ''os podem resolver.'',
      ''-   Proposi'' @ [CHR 0xC3, CHR 0xA7, CHR 0xC3, CHR 0xB5]
        @ ''es de Valor: Como nossos produtos/servi'' @ [CHR 0xC3, CHR 0xA7]
        @ ''os se alinham aos objetivos da empresa e que ganhos oferecemos.'',
      [],
      ''Diretrizes:'',
      ''-   Priorize as informa'' @ [CHR 0xC3, CHR 0xA7, CHR 0xC3, CHR 0xB5]
        @ ''es mais recentes e as mais impactantes para vendas.'',
      ''-   Mencione explicitamente se houver informa'' @ [CHR 0xC3, CHR 0xA7, CHR 0xC3, CHR 0xB5]
        @ ''es conflitantes ou falta de dados.'',
      ''-   Apresente o resumo de forma estruturada, usando t'' @ [CHR 0xC3, CHR 0xAD]
        @ ''tulos e marcadores.'',
      ''-   Mantenha um tom profissional e anal'' @ [CHR 0xC3, CHR 0xAD] @ ''tico.'',
      [],
      ''---'',
      ''Links para an'' @ [CHR 0xC3, CHR 0xA1] @ ''lise (priorize a leitura e compreens''
        @ [CHR 0xC3, CHR 0xA3] @ ''o do conte'' @ [CHR 0xC3, CHR 0xBA] @ ''do):'']"

definition prompt_head :: string where
  "prompt_head = unlines prompt_head_lines"

definition prompt_tail :: string where
  "prompt_tail = unlines
     [[],
      [],
      ''---'',
      ''Resumo Anal'' @ [CHR 0xC3, CHR 0xAD] @ ''tico para Prospec''
        @ [CHR 0xC3, CHR 0xA7, CHR 0xC3, CHR 0xA3] @ ''o:'']"

definition analysis_prompt :: "string \<Rightarrow> string" where
  "analysis_prompt links_formatados = prompt_head @ links_formatados @ prompt_tail"

definition no_links_message :: string where
  "no_links_message =
     ''N'' @ [CHR 0xC3, CHR 0xA3] @ ''o foi poss'' @ [CHR 0xC3, CHR 0xAD]
     @ ''vel gerar um resumo, pois nenhum link relevante foi fornecido ou encontrado.''"

definition quota_message :: string where
  "quota_message =
     ''N'' @ [CHR 0xC3, CHR 0xA3] @ ''o foi poss'' @ [CHR 0xC3, CHR 0xAD]
     @ ''vel gerar o resumo devido ao limite de requisi'' @ [CHR 0xC3, CHR 0xA7, CHR 0xC3, CHR 0xB5]
     @ ''es da API. Tente novamente mais tarde ou verifique sua cota.''"

definition http_error_message :: "exn \<Rightarrow> int \<Rightarrow> string" where
  "http_error_message e status =
     ''Ocorreu um erro HTTP ao gerar o resumo: '' @ exn_str e @ ''. Status: '' @ str_int status"

definition unknown_error_message :: "exn \<Rightarrow> string" where
  "unknown_error_message e =
     ''Ocorreu um erro desconhecido durante a gera'' @ [CHR 0xC3, CHR 0xA7, CHR 0xC3, CHR 0xA3]
     @ ''o do resumo: '' @ exn_name e @ '': '' @ exn_str e"

text \<open>
  The handlers of lines 127 to 136, in their order: the first \<^verbatim>\<open>except\<close> takes an
  \<^verbatim>\<open>HTTPError\<close> (both places that raise one give it its response), the second every
  other exception.
\<close>

fun handle_failure :: "exn \<Rightarrow> trace \<Rightarrow> json \<times> trace" where
  "handle_failure (HTTPError m r) t =
     (if status_code r = 429
      then (JStr quota_message,
            display (St_error [Lit (''ERRO DE COTA: Voc'' @ [CHR 0xC3, CHR 0xAA]
                       @ '' excedeu seu limite de requisi'' @ [CHR 0xC3, CHR 0xA7, CHR 0xC3, CHR 0xB5]
                       @ ''es ao Gemini. Tente novamente mais tarde ou verifique sua cota da API.'')]) t)
      else (JStr (http_error_message (HTTPError m r) (status_code r)),
            display (St_error [Lit ''ERRO HTTP inesperado ao gerar o resumo: '',
                               Err (HTTPError m r), Lit ''. Status: '',
                               Val (JInt (status_code r))]) t))"
| "handle_failure e t =
     (JStr (unknown_error_message e),
      display (St_error [Lit ''ERRO INESPERADO ao gerar o resumo: '', Err e]) t)"

text \<open>The call \<^verbatim>\<open>st.info\<close> of line 123.\<close>

definition summary_started :: st_call where
  "summary_started =
     St_info [Lit (''Iniciando a gera'' @ [CHR 0xC3, CHR 0xA7, CHR 0xC3, CHR 0xA3]
                   @ ''o do resumo detalhado com o Gemini...'')]"

definition resumir_com_gemini :: "env \<Rightarrow> string list \<Rightarrow> trace \<Rightarrow> json \<times> trace" where
  "resumir_com_gemini E links t =
     (if links = []
      then (JStr no_links_message,
            display (St_warning [Lit (''AVISO: Nenhum link v'' @ [CHR 0xC3, CHR 0xA1]
                       @ ''lido fornecido para resumo.'')]) t)
      else
        (let links_formatados = join (nl @ ''- '') links;
             prompt = analysis_prompt links_formatados;
             t0 = display summary_started t
         in case generate_content_with_retry_rest E prompt t0 of
              (Inr resumo_final, t1) \<Rightarrow> (resumo_final, t1)
            | (Inl e, t1) \<Rightarrow> handle_failure e t1))"

section \<open>Predicates the claims speak of\<close>

text \<open>
  A response passes \<^verbatim>\<open>raise_for_status\<close>; the ``candidates'' field of a JSON object is
  absent or is the empty list. A parsed body has no ``candidates'' when it is such an
  object, or an array or a string in which ``candidates'' does not occur. A parsed body
  is a scalar when it is null, a boolean or a number.
\<close>

definition passes_status_check :: "response \<Rightarrow> bool" where
  "passes_status_check r = (status_code r < 400 \<or> 600 \<le> status_code r)"

definition candidates_absent_or_empty :: "(string \<times> json) list \<Rightarrow> bool" where
  "candidates_absent_or_empty kvs =
     (case map_of kvs ''candidates'' of None \<Rightarrow> True | Some c \<Rightarrow> c = JArr [])"

fun lacks_candidates :: "json \<Rightarrow> bool" where
  "lacks_candidates (JObj kvs) = candidates_absent_or_empty kvs"
| "lacks_candidates (JArr xs) = (JStr ''candidates'' \<notin> set xs)"
| "lacks_candidates (JStr s) = (\<not> sublist ''candidates'' s)"
| "lacks_candidates v = False"

fun is_scalar :: "json \<Rightarrow> bool" where
  "is_scalar JNull = True"
| "is_scalar (JBool b) = True"
| "is_scalar (JInt i) = True"
| "is_scalar (JFloat m e) = True"
| "is_scalar v = False"

text \<open>
  The structure the extraction expects of the first candidate: an object whose
  ``content'' is an object whose ``parts'' is a list that starts with an object that has
  a ``text''. The exceptions a failed subscript raises.
\<close>

fun has_text_structure :: "json \<Rightarrow> bool" where
  "has_text_structure (JObj kvs) =
     (case map_of kvs ''content'' of
        Some (JObj kvs2) \<Rightarrow>
          (case map_of kvs2 ''parts'' of
             Some (JArr (JObj kvs3 # ps)) \<Rightarrow> map_of kvs3 ''text'' \<noteq> None
           | _ \<Rightarrow> False)
      | _ \<Rightarrow> False)"
| "has_text_structure v = False"

fun is_subscript_error :: "exn \<Rightarrow> bool" where
  "is_subscript_error (KeyError k) = True"
| "is_subscript_error (IndexError m) = True"
| "is_subscript_error (TypeError m) = True"
| "is_subscript_error e = False"

text \<open>
  The five theme headers and the instruction about conflicting or missing information,
  in the words of the prompt.
\<close>

definition theme_headers :: "string list" where
  "theme_headers =
     [''Desafios Atuais'',
      ''Oportunidades de Mercado'',
      ''Iniciativas Estrat'' @ [CHR 0xC3, CHR 0xA9] @ ''gicas'',
      ''Pontos de Dor Relevantes'',
      ''Proposi'' @ [CHR 0xC3, CHR 0xA7, CHR 0xC3, CHR 0xB5] @ ''es de Valor'']"

definition conflict_instruction :: string where
  "conflict_instruction =
     ''Mencione explicitamente se houver informa'' @ [CHR 0xC3, CHR 0xA7, CHR 0xC3, CHR 0xB5]
     @ ''es conflitantes ou falta de dados.''"

text \<open>
  What the search is to return in the words of its specification: the ``link'' of each
  entry, in order, an entry without one giving nothing. The exceptions handed to
  \<^verbatim>\<open>st.error\<close> so far. The fate of the one request a search issues from the trace \<open>t\<close>.
\<close>

fun is_object :: "json \<Rightarrow> bool" where
  "is_object (JObj kvs) = True"
| "is_object v = False"

fun entry_links :: "json \<Rightarrow> json list" where
  "entry_links (JObj kvs) = (case map_of kvs ''link'' of Some v \<Rightarrow> [v] | None \<Rightarrow> [])"
| "entry_links v = []"

definition links_in_order :: "json list \<Rightarrow> json list" where
  "links_in_order items = concat (map entry_links items)"

fun reported :: "st_call \<Rightarrow> exn list" where
  "reported (St_error parts) = [e. Err e \<leftarrow> parts]"
| "reported c = []"

definition errors_shown :: "trace \<Rightarrow> exn list" where
  "errors_shown t = concat (map reported (shown t))"

definition search_reply :: "env \<Rightarrow> string \<Rightarrow> int \<Rightarrow> string \<Rightarrow> trace \<Rightarrow> transport" where
  "search_reply E query num_resultados lang t =
     net E (length (sent t)) (search_request E query num_resultados lang)"

text \<open>
  A parsed body that carries a list of results: an object whose ``organic_results'' is
  an array. The exception at which the extraction stops on an entry, if it does: an
  entry that is null, a boolean or a number cannot be searched for ``link'', and an
  array or a string in which ``link'' occurs cannot be subscripted with it; an object
  never stops it.
\<close>

fun has_results_list :: "json \<Rightarrow> bool" where
  "has_results_list (JObj kvs) =
     (case map_of kvs ''organic_results'' of Some (JArr items) \<Rightarrow> True | _ \<Rightarrow> False)"
| "has_results_list v = False"

fun entry_error :: "json \<Rightarrow> exn option" where
  "entry_error (JObj kvs) = None"
| "entry_error (JArr xs) =
     (if JStr ''link'' \<in> set xs
      then Some (TypeError ''list indices must be integers or slices, not str'') else None)"
| "entry_error (JStr s) =
     (if sublist ''link'' s
      then Some (TypeError (''string indices must be integers, not '' @ quote @ ''str'' @ quote))
      else None)"
| "entry_error v =
     Some (TypeError (''argument of type '' @ quote @ py_type_name v @ quote
                      @ '' is not iterable''))"

section \<open>Concrete runs\<close>

text \<open>
  A trace with nothing in it, a network whose answer depends only on how many requests
  were issued before, and a response with a given status, reason and body.
\<close>

definition fresh :: trace where
  "fresh = \<lparr>sent = [], slept = [], shown = []\<rparr>"

definition server :: "(nat \<Rightarrow> transport) \<Rightarrow> env" where
  "server f = \<lparr>google_api_key = ''G'', serpapi_api_key = ''S'',
               net = (\<lambda>n req. f n), future_id = 0x7f3a2c1d4e90\<rparr>"

definition answer :: "int \<Rightarrow> string \<Rightarrow> string + json \<Rightarrow> response" where
  "answer status why body =
     \<lparr>status_code = status, reason = why, url = ''https://api.example/'', json_body = body\<rparr>"

text \<open>
  What \<^verbatim>\<open>resumir_com_gemini\<close> returns when the completion call ends in a
  \<^verbatim>\<open>RetryError\<close> around an \<^verbatim>\<open>HTTPError\<close>, for the \<open>future_id\<close> of \<open>server\<close>.
\<close>

definition wrapped_message :: string where
  "wrapped_message =
     ''Ocorreu um erro desconhecido durante a gera'' @ [CHR 0xC3, CHR 0xA7, CHR 0xC3, CHR 0xA3]
     @ ''o do resumo: RetryError: ''
     @ ''RetryError[<Future at 0x7f3a2c1d4e90 state=finished raised HTTPError>]''"

text \<open>A network that answers 503 twice and then refuses the connection.\<close>

definition flaky :: env where
  "flaky = server (\<lambda>n. if n < 2 then Reply (answer 503 ''Service Unavailable'' (Inl ''no JSON''))
                         else Fails ''ConnectionError'' ''connection refused'')"

text \<open>
  Answers of the completion endpoint: a well-formed one; one whose first candidate has
  null for its ``content''; one whose first candidate has no ``content'' at all.
\<close>

definition summary_reply :: response where
  "summary_reply = answer 200 ''OK''
     (Inr (JObj [(''candidates'',
        JArr [JObj [(''content'', JObj [(''parts'', JArr [JObj [(''text'', JStr ''Resumo pronto'')]]),
                                         (''role'', JStr ''model'')]),
                    (''finishReason'', JStr ''STOP'')]])]))"

definition null_content_reply :: response where
  "null_content_reply = answer 200 ''OK''
     (Inr (JObj [(''candidates'', JArr [JObj [(''content'', JNull)]])]))"

definition blocked_reply :: response where
  "blocked_reply = answer 200 ''OK''
     (Inr (JObj [(''candidates'', JArr [JObj [(''finishReason'', JStr ''SAFETY'')]])]))"

text \<open>
  Answers of the search provider: one whose second entry has no link, one whose second
  entry is null, one that reports an error of its own and has no results.
\<close>

definition refusal_reply :: response where
  "refusal_reply = answer 200 ''OK'' (Inr (JObj [(''error'', JStr ''Invalid API key.'')]))"

definition good_results_reply :: response where
  "good_results_reply = answer 200 ''OK''
     (Inr (JObj [(''organic_results'',
        JArr [JObj [(''position'', JInt 1), (''link'', JStr ''https://a.example'')],
              JObj [(''position'', JInt 2), (''title'', JStr ''sem link'')],
              JObj [(''position'', JInt 3), (''link'', JStr ''https://c.example'')]])]))"

definition broken_results_reply :: response where
  "broken_results_reply = answer 200 ''OK''
     (Inr (JObj [(''organic_results'',
        JArr [JObj [(''position'', JInt 1), (''link'', JStr ''https://a.example'')], JNull,
              JObj [(''position'', JInt 3), (''link'', JStr ''https://c.example'')]])]))"

section \<open>Properties of one attempt and of the retry loop\<close>

lemma raise_for_status_ok:
  "\<not> (400 \<le> status_code r \<and> status_code r < 600) \<Longrightarrow> raise_for_status r = Inr ()"
  by (auto simp: raise_for_status_def)

lemma raise_for_status_err:
  "400 \<le> status_code r \<Longrightarrow> status_code r < 600 \<Longrightarrow> \<exists>m. raise_for_status r = Inl (HTTPError m r)"
  by (auto simp: raise_for_status_def Let_def)

lemma raise_for_status_cases:
  "raise_for_status r = Inr () \<or> (\<exists>m. raise_for_status r = Inl (HTTPError m r))"
  by (auto simp: raise_for_status_def Let_def)

lemma after_sent [simp]: "sent (snd (after_raise_for_status r t)) = sent t"
  by (auto simp: after_raise_for_status_def display_def split: sum.splits)

lemma after_slept [simp]: "slept (snd (after_raise_for_status r t)) = slept t"
  by (auto simp: after_raise_for_status_def display_def split: sum.splits)

lemma attempt_sent [simp]:
  "sent (snd (generate_content_attempt E p t)) = sent t @ [completion_request E p]"
  by (auto simp: generate_content_attempt_def send_def split: transport.splits sum.splits prod.splits)

lemma attempt_slept [simp]:
  "slept (snd (generate_content_attempt E p t)) = slept t"
  by (auto simp: generate_content_attempt_def send_def split: transport.splits sum.splits prod.splits)

lemma wait_exponential_bounds: "4 \<le> wait_exponential n \<and> wait_exponential n \<le> 10"
  by (simp add: wait_exponential_def)

lemma retrying_trace:
  "\<exists>ws. sent (snd (retrying E p n t)) = sent t @ replicate (Suc (length ws)) (completion_request E p)
      \<and> slept (snd (retrying E p n t)) = slept t @ ws
      \<and> (\<forall>w\<in>set ws. 4 \<le> w \<and> w \<le> 10) \<and> length ws \<le> 5 - n"
proof (induction E p n t rule: retrying.induct)
  case (1 E p n t)
  obtain res t1 where a: "generate_content_attempt E p t = (res, t1)"
    by (cases "generate_content_attempt E p t")
  have s1: "sent t1 = sent t @ [completion_request E p]" and s2: "slept t1 = slept t"
    using attempt_sent[of E p t] attempt_slept[of E p t] a by simp_all
  show ?case
  proof (cases res)
    case (Inr v)
    then have "retrying E p n t = (Inr v, t1)"
      using a by (simp add: retrying.simps)
    then show ?thesis using s1 s2 by (intro exI[of _ "[]"]) simp
  next
    case (Inl e)
    show ?thesis
    proof (cases "\<not> is_HTTPError e \<or> stop_after_attempt n")
      case True
      then have "snd (retrying E p n t) = t1"
        using a Inl by (auto simp add: retrying.simps)
      then show ?thesis using s1 s2 by (intro exI[of _ "[]"]) simp
    next
      case False
      let ?t2 = "t1\<lparr>slept := slept t1 @ [wait_exponential n]\<rparr>"
      from False have h: "is_HTTPError e" "\<not> stop_after_attempt n" by auto
      then have r: "retrying E p n t = retrying E p (n + 1) ?t2"
        using a Inl by (simp add: retrying.simps)
      have nn: "\<not> \<not> is_HTTPError e" using h(1) by simp
      from "1.IH"[OF a[symmetric] Inl nn h(2)]
      obtain ws where ws: "sent (snd (retrying E p (n + 1) ?t2)) = sent ?t2 @ replicate (Suc (length ws)) (completion_request E p)"
        "slept (snd (retrying E p (n + 1) ?t2)) = slept ?t2 @ ws"
        "\<forall>w\<in>set ws. 4 \<le> w \<and> w \<le> 10" "length ws \<le> 5 - (n + 1)"
        by auto
      have n: "n < 5" using h(2) by (simp add: stop_after_attempt_def)
      show ?thesis
        using ws r s1 s2 n wait_exponential_bounds[of n]
        by (intro exI[of _ "wait_exponential n # ws"]) (simp add: replicate_append_same)
    qed
  qed
qed

lemma retrying_not_HTTPError:
  "fst (retrying E p n t) = Inl e \<Longrightarrow> \<not> is_HTTPError e"
proof (induction E p n t arbitrary: e rule: retrying.induct)
  case (1 E p n t)
  obtain res t1 where a: "generate_content_attempt E p t = (res, t1)"
    by (cases "generate_content_attempt E p t")
  show ?case
  proof (cases res)
    case (Inr v)
    then show ?thesis using a "1.prems" by (simp add: retrying.simps)
  next
    case (Inl e')
    show ?thesis
    proof (cases "is_HTTPError e' \<and> \<not> stop_after_attempt n")
      case True
      then have r: "retrying E p n t = retrying E p (n + 1) (t1\<lparr>slept := slept t1 @ [wait_exponential n]\<rparr>)"
        using a Inl by (simp add: retrying.simps)
      have nn: "\<not> \<not> is_HTTPError e'" using True by simp
      have st: "\<not> stop_after_attempt n" using True by simp
      show ?thesis
        using "1.IH"[OF a[symmetric] Inl nn st, of e] "1.prems" r by simp
    next
      case False
      then show ?thesis using a Inl "1.prems" by (auto simp add: retrying.simps split: if_splits)
    qed
  qed
qed

lemma attempt_http_error:
  assumes "net E (length (sent t)) (completion_request E p) = Reply r"
    and "400 \<le> status_code r" and "status_code r < 600"
  shows "\<exists>m. raise_for_status r = Inl (HTTPError m r) \<and>
     generate_content_attempt E p t
       = (Inl (HTTPError m r), t\<lparr>sent := sent t @ [completion_request E p]\<rparr>)"
  using assms raise_for_status_err[of r]
  by (auto simp: generate_content_attempt_def send_def)

lemma retrying_exhausts:
  assumes all: "\<forall>i. \<exists>r. net E i (completion_request E p) = Reply r
                  \<and> 400 \<le> status_code r \<and> status_code r < 600"
  shows "n \<le> 5 \<Longrightarrow> \<exists>m r. raise_for_status r = Inl (HTTPError m r)
           \<and> net E (length (sent t) + (5 - n)) (completion_request E p) = Reply r
           \<and> fst (retrying E p n t) = Inl (RetryError (HTTPError m r) (future_id E))
           \<and> length (sent (snd (retrying E p n t))) = length (sent t) + (6 - n)"
proof (induction "5 - n" arbitrary: n t)
  case 0
  then have n: "n = 5" by simp
  from all obtain r where r: "net E (length (sent t)) (completion_request E p) = Reply r"
    "400 \<le> status_code r" "status_code r < 600" by blast
  from attempt_http_error[OF r] obtain m where
    m: "raise_for_status r = Inl (HTTPError m r)"
       "generate_content_attempt E p t
          = (Inl (HTTPError m r), t\<lparr>sent := sent t @ [completion_request E p]\<rparr>)"
    by blast
  have "retrying E p n t = (Inl (RetryError (HTTPError m r) (future_id E)),
          t\<lparr>sent := sent t @ [completion_request E p]\<rparr>)"
    using m(2) n by (simp add: retrying.simps stop_after_attempt_def)
  then show ?case using m(1) r(1) n by auto
next
  case (Suc k)
  then have n: "n < 5" "k = 5 - (n + 1)" "n + 1 \<le> 5" by simp_all
  from all obtain r where r: "net E (length (sent t)) (completion_request E p) = Reply r"
    "400 \<le> status_code r" "status_code r < 600" by blast
  from attempt_http_error[OF r] obtain m where
    m: "generate_content_attempt E p t
          = (Inl (HTTPError m r), t\<lparr>sent := sent t @ [completion_request E p]\<rparr>)"
    by blast
  let ?t2 = "t\<lparr>sent := sent t @ [completion_request E p],
                slept := slept t @ [wait_exponential n]\<rparr>"
  have step: "retrying E p n t = retrying E p (n + 1) ?t2"
    using m n(1) by (simp add: retrying.simps stop_after_attempt_def)
  have idx: "length (sent ?t2) + (5 - (n + 1)) = length (sent t) + (5 - n)"
    and len: "length (sent ?t2) + (6 - (n + 1)) = length (sent t) + (6 - n)"
    using n(1) by simp_all
  from Suc.hyps(1)[OF n(2) n(3), of ?t2] obtain m' r' where
    "raise_for_status r' = Inl (HTTPError m' r')"
    "net E (length (sent ?t2) + (5 - (n + 1))) (completion_request E p) = Reply r'"
    "fst (retrying E p (n + 1) ?t2) = Inl (RetryError (HTTPError m' r') (future_id E))"
    "length (sent (snd (retrying E p (n + 1) ?t2))) = length (sent ?t2) + (6 - (n + 1))"
    by blast
  then show ?case unfolding idx len step
    by (intro exI[of _ m'] exI[of _ r']) simp
qed

lemma resumir_nonempty:
  "links \<noteq> [] \<Longrightarrow> resumir_com_gemini E links t =
     (case generate_content_with_retry_rest E (analysis_prompt (join (nl @ ''- '') links))
             (display summary_started t) of
        (Inr v, t1) \<Rightarrow> (v, t1)
      | (Inl e, t1) \<Rightarrow> handle_failure e t1)"
  by (simp add: resumir_com_gemini_def Let_def)

lemma handle_failure_not_http:
  "\<not> is_HTTPError e \<Longrightarrow> fst (handle_failure e t) = JStr (unknown_error_message e)"
  by (cases e) simp_all

text \<open>Whatever the network does, a failure of the completion call reaches the last handler.\<close>

lemma resumir_failure_is_unknown:
  assumes "links \<noteq> []"
    and "generate_content_with_retry_rest E (analysis_prompt (join (nl @ ''- '') links))
             (display summary_started t) = (Inl e, t1)"
  shows "fst (resumir_com_gemini E links t) = JStr (unknown_error_message e)"
proof -
  have "fst (retrying E (analysis_prompt (join (nl @ ''- '') links)) 1
             (display summary_started t)) = Inl e"
    using assms(2) unfolding generate_content_with_retry_rest_def by simp
  then have "\<not> is_HTTPError e"
    by (rule retrying_not_HTTPError)
  then show ?thesis
    using assms by (simp add: resumir_nonempty handle_failure_not_http)
qed

lemma retrying_returns_value:
  "fst (generate_content_attempt E p u) = Inr v \<Longrightarrow>
     retrying E p n u = generate_content_attempt E p u"
  by (cases "generate_content_attempt E p u") (simp add: retrying.simps)

lemma retrying_propagates:
  "fst (generate_content_attempt E p u) = Inl e \<Longrightarrow> \<not> is_HTTPError e \<Longrightarrow>
     retrying E p n u = generate_content_attempt E p u"
  by (cases "generate_content_attempt E p u") (simp add: retrying.simps)

lemma retrying_retries:
  "fst (generate_content_attempt E p u) = Inl e \<Longrightarrow> is_HTTPError e \<Longrightarrow> n < 5 \<Longrightarrow>
     retrying E p n u =
       retrying E p (n + 1)
         ((snd (generate_content_attempt E p u))
            \<lparr>slept := slept (snd (generate_content_attempt E p u)) @ [wait_exponential n]\<rparr>)"
  by (cases "generate_content_attempt E p u") (simp add: retrying.simps stop_after_attempt_def)

lemma flaky_run:
  "generate_content_with_retry_rest flaky ''p'' fresh
     = (Inl (OtherError ''ConnectionError'' ''connection refused''),
        \<lparr>sent = [completion_request flaky ''p'', completion_request flaky ''p'',
                 completion_request flaky ''p''],
          slept = [4, 4], shown = []\<rparr>)"
  by (simp add: generate_content_with_retry_rest_def retrying.simps generate_content_attempt_def
       send_def flaky_def server_def answer_def raise_for_status_def str_int_def str_nat.simps
       fresh_def stop_after_attempt_def wait_exponential_def)

lemma attempt_lacks_candidates:
  assumes "net E (length (sent t)) (completion_request E p) = Reply r"
    and "passes_status_check r"
    and "json_body r = Inr j"
    and "lacks_candidates j"
  shows "generate_content_attempt E p t =
     (Inr (JStr no_content_sentinel),
      display (St_warning [Lit ''AVISO: Resposta Gemini sem candidatos. Detalhes: '', Val j])
        (t\<lparr>sent := sent t @ [completion_request E p]\<rparr>))"
proof -
  have ok: "raise_for_status r = Inr ()"
    using assms(2) by (intro raise_for_status_ok) (auto simp: passes_status_check_def)
  have n429: "status_code r \<noteq> 429"
    using assms(2) by (auto simp: passes_status_check_def)
  show ?thesis
    using assms(1,3,4) ok n429
    by (cases j)
       (auto simp: generate_content_attempt_def send_def after_raise_for_status_def
          response_json_def candidates_absent_or_empty_def split: option.splits)
qed

lemma attempt_scalar_body:
  assumes "net E (length (sent t)) (completion_request E p) = Reply r"
    and "passes_status_check r"
    and "json_body r = Inr j"
    and "is_scalar j"
  shows "generate_content_attempt E p t =
     (Inl (TypeError (''argument of type '' @ quote @ py_type_name j @ quote
                      @ '' is not iterable'')),
      t\<lparr>sent := sent t @ [completion_request E p]\<rparr>)"
proof -
  have ok: "raise_for_status r = Inr ()"
    using assms(2) by (intro raise_for_status_ok) (auto simp: passes_status_check_def)
  have n429: "status_code r \<noteq> 429"
    using assms(2) by (auto simp: passes_status_check_def)
  show ?thesis
    using assms(1,3,4) ok n429
    by (cases j)
       (auto simp: generate_content_attempt_def send_def after_raise_for_status_def
          response_json_def)
qed

section \<open>Properties of the prompt and of the summary\<close>

lemma join_Cons: "join sep (x # xs) = x @ concat (map (\<lambda>u. sep @ u) xs)"
  by (induction xs arbitrary: x) simp_all

lemma join_hd_tl:
  "links \<noteq> [] \<Longrightarrow> join sep links = hd links @ concat (map (\<lambda>u. sep @ u) (tl links))"
  by (cases links) (simp_all add: join_Cons)

lemma sublist_unlines: "l \<in> set ls \<Longrightarrow> sublist h l \<Longrightarrow> sublist h (unlines ls)"
proof -
  assume "l \<in> set ls" and h: "sublist h l"
  then obtain as bs where "ls = as @ l # bs" by (auto simp: in_set_conv_decomp)
  then have "unlines ls = unlines as @ l @ (nl @ unlines bs)"
    by (simp add: unlines_def)
  moreover have "sublist l (unlines as @ l @ (nl @ unlines bs))"
    by (rule sublist_appendI)
  ultimately show ?thesis
    using h sublist_order.order.trans by metis
qed

lemma sublist_line:
  "i < length prompt_head_lines \<Longrightarrow> sublist h (prompt_head_lines ! i) \<Longrightarrow> sublist h prompt_head"
  unfolding prompt_head_def by (rule sublist_unlines[OF nth_mem])

lemma length_prompt_head_lines: "length prompt_head_lines = 19"
  by (simp add: prompt_head_lines_def)

lemma header_lines:
  "sublist (theme_headers ! 0) (prompt_head_lines ! 5)"
  "sublist (theme_headers ! 1) (prompt_head_lines ! 6)"
  "sublist (theme_headers ! 2) (prompt_head_lines ! 7)"
  "sublist (theme_headers ! 3) (prompt_head_lines ! 8)"
  "sublist (theme_headers ! 4) (prompt_head_lines ! 9)"
  by code_simp+

lemma instruction_line: "sublist conflict_instruction (prompt_head_lines ! 13)"
  by code_simp

lemma headers_in_head: "\<forall>h\<in>set theme_headers. sublist h prompt_head"
proof -
  have "sublist (theme_headers ! k) prompt_head" if "k < 5" for k
  proof -
    from that have "k = 0 \<or> k = 1 \<or> k = 2 \<or> k = 3 \<or> k = 4" by auto
    then have "sublist (theme_headers ! k) (prompt_head_lines ! (5 + k))"
      using header_lines by auto
    then show ?thesis
      using that by (intro sublist_line[of "5 + k"]) (simp_all add: length_prompt_head_lines)
  qed
  moreover have "length theme_headers = 5" by (simp add: theme_headers_def)
  ultimately show ?thesis by (auto simp: in_set_conv_nth)
qed

lemma instruction_in_head: "sublist conflict_instruction prompt_head"
  using instruction_line by (intro sublist_line[of 13]) (simp_all add: length_prompt_head_lines)

lemma sublist_prompt: "sublist h prompt_head \<Longrightarrow> sublist h (analysis_prompt x)"
  unfolding analysis_prompt_def
  by (meson sublist_order.order.trans sublist_append_rightI)

lemma generate_sent:
  "\<exists>k. sent (snd (generate_content_with_retry_rest E p t))
         = sent t @ replicate (Suc k) (completion_request E p)"
  unfolding generate_content_with_retry_rest_def
  using retrying_trace[of E p 1 t] by blast

lemma resumir_requests:
  assumes "links \<noteq> []"
  shows "\<exists>reqs. reqs \<noteq> []
     \<and> sent (snd (resumir_com_gemini E links t)) = sent t @ reqs
     \<and> set reqs = {completion_request E (analysis_prompt (join (nl @ ''- '') links))}"
proof -
  let ?p = "analysis_prompt (join (nl @ ''- '') links)"
  let ?g = "generate_content_with_retry_rest E ?p (display summary_started t)"
  obtain res t1 where g: "?g = (res, t1)" by (cases ?g)
  from generate_sent[of E ?p "display summary_started t"] obtain k where
    "sent (snd ?g) = sent (display summary_started t)
        @ replicate (Suc k) (completion_request E ?p)" ..
  then have s: "sent t1 = sent t @ replicate (Suc k) (completion_request E ?p)"
    using g by (simp add: display_def)
  have "sent (snd (resumir_com_gemini E links t)) = sent t1"
  proof (cases res)
    case (Inl e)
    then show ?thesis using assms g
      by (cases e) (simp_all add: resumir_nonempty display_def)
  next
    case (Inr v)
    then show ?thesis using assms g by (simp add: resumir_nonempty)
  qed
  with s show ?thesis
    by (intro exI[of _ "replicate (Suc k) (completion_request E ?p)"]) auto
qed

lemma summary_run:
  "generate_content_with_retry_rest (server (\<lambda>n. Reply summary_reply)) p t
     = (Inr (JStr ''Resumo pronto''),
        t\<lparr>sent := sent t @ [completion_request (server (\<lambda>n. Reply summary_reply)) p]\<rparr>)"
  by (simp add: generate_content_with_retry_rest_def retrying.simps generate_content_attempt_def
        send_def server_def summary_reply_def answer_def raise_for_status_def
        after_raise_for_status_def response_json_def py_index_def)

section \<open>Properties of the extraction\<close>

lemma py_index_0 [simp]: "py_index (x # xs) 0 = Some x" "py_index [] 0 = None"
  by (simp_all add: py_index_def)

lemma subscript_error_not_http: "is_subscript_error e \<Longrightarrow> \<not> is_HTTPError e"
  by (cases e) simp_all

lemma text_of_part:
  "(\<exists>e. py_getitem v (KStr ''text'') = Inl e \<and> is_subscript_error e)
   \<or> (\<exists>kvs w. v = JObj kvs \<and> map_of kvs ''text'' = Some w)"
  by (cases v) (auto split: option.splits)

lemma first_of_parts:
  "(\<exists>e. py_getitem v (KInt 0) = Inl e \<and> is_subscript_error e)
   \<or> (\<exists>x xs. v = JArr (x # xs) \<and> py_getitem v (KInt 0) = Inr x)
   \<or> (\<exists>s c. v = JStr s \<and> py_getitem v (KInt 0) = Inr (JStr c))"
proof (cases v)
  case (JArr xs)
  then show ?thesis by (cases xs) auto
next
  case (JStr s)
  then show ?thesis by (cases "py_index (utf8_chars s) 0") auto
qed auto

lemma parts_and_text:
  "(\<exists>e. subscripts v [KInt 0, KStr ''text''] = Inl e \<and> is_subscript_error e)
   \<or> (\<exists>kvs ps. v = JArr (JObj kvs # ps) \<and> map_of kvs ''text'' \<noteq> None)"
  using first_of_parts[of v]
proof (elim disjE exE conjE)
  fix x xs assume v: "v = JArr (x # xs)" "py_getitem v (KInt 0) = Inr x"
  from text_of_part[of x] show ?thesis
    using v by auto
qed auto

lemma content_of_candidate:
  "(\<exists>e. py_getitem c (KStr k) = Inl e \<and> is_subscript_error e)
   \<or> (\<exists>kvs w. c = JObj kvs \<and> map_of kvs k = Some w \<and> py_getitem c (KStr k) = Inr w)"
  by (cases c) (auto split: option.splits)

lemma lacking_candidate:
  assumes "\<not> has_text_structure c"
  shows "\<exists>e. subscripts c [KStr ''content'', KStr ''parts'', KInt 0, KStr ''text''] = Inl e
             \<and> is_subscript_error e"
  using content_of_candidate[of c "''content''"]
proof (elim disjE exE conjE)
  fix kvs w assume c: "c = JObj kvs" "map_of kvs ''content'' = Some w"
    "py_getitem c (KStr ''content'') = Inr w"
  from content_of_candidate[of w "''parts''"] show ?thesis
  proof (elim disjE exE conjE)
    fix kvs2 ps assume w: "w = JObj kvs2" "map_of kvs2 ''parts'' = Some ps"
      "py_getitem w (KStr ''parts'') = Inr ps"
    from parts_and_text[of ps] show ?thesis
    proof (elim disjE exE conjE)
      fix kvs3 rest assume "ps = JArr (JObj kvs3 # rest)" "map_of kvs3 ''text'' \<noteq> None"
      then have "has_text_structure c" using c w by simp
      with assms show ?thesis by simp
    next
      fix e assume "subscripts ps [KInt 0, KStr ''text''] = Inl e" "is_subscript_error e"
      then show ?thesis using c w by simp
    qed
  next
    fix e assume "py_getitem w (KStr ''parts'') = Inl e" "is_subscript_error e"
    then show ?thesis using c by simp
  qed
next
  fix e assume "py_getitem c (KStr ''content'') = Inl e" "is_subscript_error e"
  then show ?thesis by simp
qed

lemma attempt_lacking_candidate:
  assumes "net E (length (sent u)) (completion_request E p) = Reply r"
    and "passes_status_check r"
    and "json_body r = Inr (JObj kvs)"
    and "map_of kvs ''candidates'' = Some (JArr (c # cs))"
    and "subscripts c [KStr ''content'', KStr ''parts'', KInt 0, KStr ''text''] = Inl e"
  shows "generate_content_attempt E p u
           = (Inl e, u\<lparr>sent := sent u @ [completion_request E p]\<rparr>)"
proof -
  have ok: "raise_for_status r = Inr ()"
    using assms(2) by (intro raise_for_status_ok) (auto simp: passes_status_check_def)
  have n429: "status_code r \<noteq> 429"
    using assms(2) by (auto simp: passes_status_check_def)
  show ?thesis
    using assms(1,3,4,5) ok n429
    by (simp add: generate_content_attempt_def send_def after_raise_for_status_def
          response_json_def)
qed

lemma blocked_run:
  "generate_content_with_retry_rest (server (\<lambda>n. Reply blocked_reply)) p t
     = (Inl (KeyError (KStr ''content'')),
        t\<lparr>sent := sent t @ [completion_request (server (\<lambda>n. Reply blocked_reply)) p]\<rparr>)"
  by (simp add: generate_content_with_retry_rest_def retrying.simps generate_content_attempt_def
        send_def server_def blocked_reply_def answer_def raise_for_status_def
        after_raise_for_status_def response_json_def)

section \<open>Properties of the search\<close>

lemma links_in_order_simps [simp]:
  "links_in_order [] = []"
  "links_in_order (x # xs) = entry_links x @ links_in_order xs"
  by (simp_all add: links_in_order_def)

lemma collect_links_objects:
  "list_all is_object items \<Longrightarrow>
     collect_links items acc = (Inr (), acc @ links_in_order items)"
proof (induction items arbitrary: acc)
  case Nil
  then show ?case by simp
next
  case (Cons item items)
  then obtain kvs where "item = JObj kvs" by (cases item) auto
  with Cons show ?case by (cases "map_of kvs ''link''") auto
qed

lemma collect_links_step:
  "snd (collect_links (item # items) acc) = acc
   \<or> collect_links (item # items) acc = collect_links items (acc @ entry_links item)"
  by (cases item) (auto split: option.splits)

lemma collect_links_prefix:
  "\<exists>k\<le>length items. snd (collect_links items acc) = acc @ links_in_order (take k items)"
proof (induction items arbitrary: acc)
  case Nil
  then show ?case by simp
next
  case (Cons item items)
  from collect_links_step[of item items acc] show ?case
  proof
    assume "snd (collect_links (item # items) acc) = acc"
    then show ?thesis by (intro exI[of _ 0]) simp
  next
    assume step: "collect_links (item # items) acc = collect_links items (acc @ entry_links item)"
    from Cons.IH[of "acc @ entry_links item"] obtain k where
      "k \<le> length items"
      "snd (collect_links items (acc @ entry_links item))
         = (acc @ entry_links item) @ links_in_order (take k items)" by blast
    then show ?thesis using step by (intro exI[of _ "Suc k"]) simp
  qed
qed

lemma collect_links_no_objects:
  "\<forall>x\<in>set items. \<not> is_object x \<Longrightarrow> snd (collect_links items acc) = acc"
proof (induction items arbitrary: acc)
  case Nil
  then show ?case by simp
next
  case (Cons item items)
  then show ?case by (cases item) (auto split: if_splits)
qed

lemma collect_links_passes:
  "entry_error item = None \<Longrightarrow>
     collect_links (item # items) acc = collect_links items (acc @ entry_links item)"
  by (cases item) (auto split: option.splits if_splits)

lemma collect_links_stops:
  "entry_error item = Some e \<Longrightarrow> collect_links (item # items) acc = (Inl e, acc)"
  by (cases item) (auto split: if_splits)

lemma collect_links_all_pass:
  "\<forall>x\<in>set items. entry_error x = None \<Longrightarrow>
     collect_links items acc = (Inr (), acc @ links_in_order items)"
proof (induction items arbitrary: acc)
  case Nil
  then show ?case by simp
next
  case (Cons item items)
  then have "collect_links (item # items) acc = collect_links items (acc @ entry_links item)"
    by (intro collect_links_passes) simp
  with Cons show ?case by simp
qed

lemma collect_links_stops_at:
  "\<forall>x\<in>set before. entry_error x = None \<Longrightarrow> entry_error bad = Some e \<Longrightarrow>
     collect_links (before @ bad # after) acc = (Inl e, acc @ links_in_order before)"
proof (induction before arbitrary: acc)
  case Nil
  then show ?case
    using collect_links_stops[of bad e after acc] by (simp del: collect_links.simps)
next
  case (Cons item before)
  then have "collect_links ((item # before) @ bad # after) acc
               = collect_links (before @ bad # after) (acc @ entry_links item)"
    using collect_links_passes[of item "before @ bad # after" acc] by simp
  with Cons show ?case by simp
qed

lemma raise_for_status_passes: "passes_status_check r \<Longrightarrow> raise_for_status r = Inr ()"
  by (intro raise_for_status_ok) (auto simp: passes_status_check_def)

lemma raise_for_status_fails:
  "\<not> passes_status_check r \<Longrightarrow> \<exists>m. raise_for_status r = Inl (HTTPError m r)"
  by (intro raise_for_status_err) (auto simp: passes_status_check_def)

lemma raise_for_status_Inr: "raise_for_status r = Inr u \<Longrightarrow> passes_status_check r"
  using raise_for_status_fails[of r] by (cases "passes_status_check r") auto

text \<open>What the loop leaves in \<^verbatim>\<open>resultados\<close>, by the value of ``organic_results''.\<close>

lemma iterate_and_collect:
  "(case py_iter v of Inl e \<Rightarrow> (Inl e, []) | Inr items \<Rightarrow> collect_links items []) = (res, links)
   \<Longrightarrow> links = [] \<or> (\<exists>items k. v = JArr items \<and> k \<le> length items
                        \<and> links = links_in_order (take k items))"
proof (cases v)
  case (JArr items)
  assume "(case py_iter v of Inl e \<Rightarrow> (Inl e, []) | Inr items \<Rightarrow> collect_links items []) = (res, links)"
  then have "links = snd (collect_links items [])" using JArr by simp
  with collect_links_prefix[of items "[]"] JArr show ?thesis by auto
next
  case (JStr s)
  assume "(case py_iter v of Inl e \<Rightarrow> (Inl e, []) | Inr items \<Rightarrow> collect_links items []) = (res, links)"
  then have "links = snd (collect_links (map JStr (utf8_chars s)) [])" using JStr by simp
  then show ?thesis by (simp add: collect_links_no_objects)
next
  case (JObj kvs)
  assume "(case py_iter v of Inl e \<Rightarrow> (Inl e, []) | Inr items \<Rightarrow> collect_links items []) = (res, links)"
  then have "links = snd (collect_links (map (\<lambda>kv. JStr (fst kv)) kvs) [])" using JObj by simp
  then show ?thesis by (simp add: collect_links_no_objects)
qed auto

lemma search_try_links:
  "fst (snd (search_try E q n lang [] u)) = []
   \<or> (\<exists>r kvs items k. net E (length (sent u)) (search_request E q n lang) = Reply r
         \<and> passes_status_check r \<and> json_body r = Inr (JObj kvs)
         \<and> map_of kvs ''organic_results'' = Some (JArr items) \<and> k \<le> length items
         \<and> fst (snd (search_try E q n lang [] u)) = links_in_order (take k items))"
proof (cases "net E (length (sent u)) (search_request E q n lang)")
  case (Fails c m)
  then show ?thesis by (simp add: search_try_def send_def)
next
  case (Reply r)
  show ?thesis
  proof (cases "passes_status_check r")
    case False
    from raise_for_status_fails[OF this] Reply show ?thesis
      by (auto simp: search_try_def send_def)
  next
    case True
    note ok = raise_for_status_passes[OF True]
    show ?thesis
    proof (cases "json_body r")
      case (Inl m)
      then show ?thesis using Reply ok by (simp add: search_try_def send_def response_json_def)
    next
      case (Inr res)
      show ?thesis
      proof (cases res)
        case (JObj kvs)
        show ?thesis
        proof (cases "map_of kvs ''organic_results''")
          case None
          then show ?thesis using Reply ok Inr JObj
            by (simp add: search_try_def send_def response_json_def)
        next
          case (Some v)
          obtain res' links where c:
            "(case py_iter v of Inl e \<Rightarrow> (Inl e, []) | Inr items \<Rightarrow> collect_links items [])
               = (res', links)"
            by (cases "case py_iter v of Inl e \<Rightarrow> (Inl e, []) | Inr items \<Rightarrow> collect_links items []")
          then have f: "fst (snd (search_try E q n lang [] u)) = links"
            using Reply ok Inr JObj Some
            by (cases res') (simp_all add: search_try_def send_def response_json_def)
          from iterate_and_collect[OF c] show ?thesis
            using f Reply True Inr JObj Some by auto
        qed
      next
        case (JArr xs)
        then show ?thesis using Reply ok Inr
          by (simp add: search_try_def send_def response_json_def)
      next
        case (JStr s)
        then show ?thesis using Reply ok Inr
          by (simp add: search_try_def send_def response_json_def)
      qed (use Reply ok Inr in \<open>simp_all add: search_try_def send_def response_json_def\<close>)
    qed
  qed
qed

lemma buscar_fst:
  "fst (buscar_links_google E q n lang t)
     = fst (snd (search_try E q n lang []
         (display (St_info [Lit ''Buscando '', Val (JInt n),
                            Lit ('' links no Google para: '' @ quote), Val (JStr q),
                            Lit (quote @ '' (via SerpApi)...'')]) t)))"
  by (simp add: buscar_links_google_def Let_def split: prod.splits sum.splits)

lemma errors_shown_display [simp]:
  "errors_shown (display c t) = errors_shown t @ reported c"
  by (simp add: errors_shown_def display_def)

lemma sent_display [simp]: "sent (display c t) = sent t"
  by (simp add: display_def)

lemma errors_shown_sent [simp]: "errors_shown (t\<lparr>sent := s\<rparr>) = errors_shown t"
  by (simp add: errors_shown_def)


lemma hl_is_literal:
  "map_of (req_params (last (sent (snd (buscar_links_google E query n lang t))))) ''hl''
     = Some (JStr ''lang'')"
  by (auto simp: buscar_links_google_def search_try_def send_def display_def search_request_def
        Let_def split: transport.splits sum.splits prod.splits)


section \<open>Single attempts of the concrete runs\<close>

lemma flaky_first_attempt:
  "generate_content_attempt flaky ''p'' fresh
     = (Inl (HTTPError ''503 Server Error: Service Unavailable for url: https://api.example/''
               (answer 503 ''Service Unavailable'' (Inl ''no JSON''))),
        fresh\<lparr>sent := [completion_request flaky ''p'']\<rparr>)"
  by (simp add: generate_content_attempt_def send_def flaky_def server_def answer_def
        raise_for_status_def str_int_def str_nat.simps fresh_def)

lemma flaky_third_attempt:
  "generate_content_attempt flaky ''p''
       (fresh\<lparr>sent := [completion_request flaky ''p'', completion_request flaky ''p''],
              slept := [4, 4]\<rparr>)
     = (Inl (OtherError ''ConnectionError'' ''connection refused''),
        fresh\<lparr>sent := [completion_request flaky ''p'', completion_request flaky ''p'',
                        completion_request flaky ''p''],
              slept := [4, 4]\<rparr>)"
  by (simp add: generate_content_attempt_def send_def flaky_def server_def fresh_def)

lemma summary_attempt:
  "generate_content_attempt (server (\<lambda>n. Reply summary_reply)) p t
     = (Inr (JStr ''Resumo pronto''),
        t\<lparr>sent := sent t @ [completion_request (server (\<lambda>n. Reply summary_reply)) p]\<rparr>)"
  by (simp add: generate_content_attempt_def send_def server_def summary_reply_def answer_def
        raise_for_status_def after_raise_for_status_def response_json_def py_index_def)

section \<open>The claims\<close>

text \<open>
  Claim C1: if every attempt of \<^verbatim>\<open>generate_content_with_retry_rest\<close> fails with an
  HTTP-level error, the attempts are made up to the ceiling and then the last HTTP
  error itself propagates to the caller, not a wrapper.

  The code makes the five attempts, and then raises tenacity's \<^verbatim>\<open>RetryError\<close> around
  the last attempt: the decorator is built without \<^verbatim>\<open>reraise=True\<close>. The run below is
  a server that answers 500 to every request; \<open>retrying_exhausts\<close> says the same of
  every network that answers each attempt with a status from 400 to 599, and
  \<open>retrying_not_HTTPError\<close> that no run at all ends in an \<^verbatim>\<open>HTTPError\<close>.
\<close>

theorem exhausted_http_error_is_wrapped:
  "fst (generate_content_with_retry_rest
          (server (\<lambda>n. Reply (answer 500 ''Internal Server Error'' (Inr (JObj []))))) ''p'' fresh)
     = Inl (RetryError
             (HTTPError ''500 Server Error: Internal Server Error for url: https://api.example/''
                (answer 500 ''Internal Server Error'' (Inr (JObj []))))
             0x7f3a2c1d4e90)
   \<and> length (sent (snd (generate_content_with_retry_rest
          (server (\<lambda>n. Reply (answer 500 ''Internal Server Error'' (Inr (JObj []))))) ''p'' fresh)))
     = 5"
  by (simp add: generate_content_with_retry_rest_def retrying.simps generate_content_attempt_def
       send_def server_def answer_def raise_for_status_def str_int_def str_nat.simps fresh_def
       stop_after_attempt_def)

text \<open>
  Claim C2: for every failure raised out of \<^verbatim>\<open>generate_content_with_retry_rest\<close>,
  \<^verbatim>\<open>resumir_com_gemini\<close> returns a user-facing string that matches the failure class:
  the quota message after HTTP 429 on every attempt, a message containing the status
  code after any other HTTP error on every attempt, a generic message naming the class
  for any other exception.

  The code returns a string in every case, and it is the generic one in every case
  (\<open>resumir_failure_is_unknown\<close>): the exhausted call raises \<^verbatim>\<open>RetryError\<close>, which the
  handler for \<^verbatim>\<open>HTTPError\<close> (lines 127 to 133) does not take. With 429 on every
  attempt the result is not the quota message; with 500 on every attempt it does not
  contain \<^verbatim>\<open>500\<close>.
\<close>

theorem exhausted_http_error_reported_as_unknown:
  "fst (resumir_com_gemini
          (server (\<lambda>n. Reply (answer 429 ''Too Many Requests'' (Inr (JObj [])))))
          [''https://a.example''] fresh) = JStr wrapped_message
   \<and> wrapped_message \<noteq> quota_message
   \<and> fst (resumir_com_gemini
          (server (\<lambda>n. Reply (answer 500 ''Internal Server Error'' (Inr (JObj [])))))
          [''https://a.example''] fresh) = JStr wrapped_message
   \<and> \<not> sublist ''500'' wrapped_message"
proof -
  have a: "fst (resumir_com_gemini
          (server (\<lambda>n. Reply (answer 429 ''Too Many Requests'' (Inr (JObj [])))))
          [''https://a.example''] fresh) = JStr wrapped_message"
    by (simp add: resumir_com_gemini_def generate_content_with_retry_rest_def retrying.simps
         generate_content_attempt_def send_def server_def answer_def raise_for_status_def
         str_int_def str_nat.simps fresh_def display_def stop_after_attempt_def summary_started_def
         unknown_error_message_def hex_nat.simps wrapped_message_def Let_def)
  have b: "fst (resumir_com_gemini
          (server (\<lambda>n. Reply (answer 500 ''Internal Server Error'' (Inr (JObj [])))))
          [''https://a.example''] fresh) = JStr wrapped_message"
    by (simp add: resumir_com_gemini_def generate_content_with_retry_rest_def retrying.simps
         generate_content_attempt_def send_def server_def answer_def raise_for_status_def
         str_int_def str_nat.simps fresh_def display_def stop_after_attempt_def summary_started_def
         unknown_error_message_def hex_nat.simps wrapped_message_def Let_def)
  have c: "wrapped_message \<noteq> quota_message"
    by (simp add: wrapped_message_def quota_message_def)
  have d: "\<not> sublist ''500'' wrapped_message"
    by code_simp
  from a b c d show ?thesis by simp
qed

text \<open>
  Claim C3: \<^verbatim>\<open>generate_content_with_retry_rest\<close> makes at most 5 attempts per
  invocation; an attempt is retried only when it raised an HTTP-level error (any other
  exception propagates at once, with no further attempt); every wait between two
  attempts is at least 4 and at most 10 time-units.

  Each attempt issues one request, so the attempts of a call are the requests it adds
  to the trace, and its waits are the entries it adds to \<open>slept\<close>, one between two
  attempts. \<open>retrying E p n u\<close> is the loop at its attempt number \<open>n\<close> on the trace
  \<open>u\<close>: when the attempt returns, or raises something that is not an \<^verbatim>\<open>HTTPError\<close>, the
  loop ends with exactly the attempt's outcome and trace; when it raises an
  \<^verbatim>\<open>HTTPError\<close> before the fifth attempt, the loop waits and goes on.
\<close>

theorem retry_policy:
  "(\<exists>ws. sent (snd (generate_content_with_retry_rest E p t))
            = sent t @ replicate (Suc (length ws)) (completion_request E p)
        \<and> Suc (length ws) \<le> 5
        \<and> slept (snd (generate_content_with_retry_rest E p t)) = slept t @ ws
        \<and> (\<forall>w\<in>set ws. 4 \<le> w \<and> w \<le> 10))
   \<and> (\<forall>n u e. fst (generate_content_attempt E p u) = Inl e \<and> \<not> is_HTTPError e
         \<longrightarrow> retrying E p n u = generate_content_attempt E p u)
   \<and> (\<forall>n u v. fst (generate_content_attempt E p u) = Inr v
         \<longrightarrow> retrying E p n u = generate_content_attempt E p u)
   \<and> (\<forall>n u e. fst (generate_content_attempt E p u) = Inl e \<and> is_HTTPError e \<and> n < 5
         \<longrightarrow> retrying E p n u =
               retrying E p (n + 1)
                 ((snd (generate_content_attempt E p u))
                    \<lparr>slept := slept (snd (generate_content_attempt E p u))
                                @ [wait_exponential n]\<rparr>))"
proof -
  obtain ws where ws:
    "sent (snd (retrying E p 1 t)) = sent t @ replicate (Suc (length ws)) (completion_request E p)"
    "slept (snd (retrying E p 1 t)) = slept t @ ws"
    "\<forall>w\<in>set ws. 4 \<le> w \<and> w \<le> 10" "length ws \<le> 5 - 1"
    using retrying_trace[of E p 1 t] by blast
  have bound: "Suc (length ws) \<le> 5" using ws(4) by simp
  have first: "\<exists>ws. sent (snd (generate_content_with_retry_rest E p t))
            = sent t @ replicate (Suc (length ws)) (completion_request E p)
        \<and> Suc (length ws) \<le> 5
        \<and> slept (snd (generate_content_with_retry_rest E p t)) = slept t @ ws
        \<and> (\<forall>w\<in>set ws. 4 \<le> w \<and> w \<le> 10)"
    unfolding generate_content_with_retry_rest_def
    using ws(1,2,3) bound by blast
  show ?thesis
    using first retrying_propagates retrying_returns_value retrying_retries by blast
qed

theorem retry_policy_witness:
  "slept (snd (generate_content_with_retry_rest flaky ''p'' fresh)) = [4, 4]
   \<and> length (sent (snd (generate_content_with_retry_rest flaky ''p'' fresh))) = 3
   \<and> list_all (\<lambda>w. 4 \<le> w \<and> w \<le> 10)
        (slept (snd (generate_content_with_retry_rest flaky ''p'' fresh)))
   \<and> retrying flaky ''p'' 3
        (fresh\<lparr>sent := [completion_request flaky ''p'', completion_request flaky ''p''],
               slept := [4, 4]\<rparr>)
       = (Inl (OtherError ''ConnectionError'' ''connection refused''),
          fresh\<lparr>sent := [completion_request flaky ''p'', completion_request flaky ''p'',
                          completion_request flaky ''p''],
                slept := [4, 4]\<rparr>)
   \<and> retrying (server (\<lambda>n. Reply summary_reply)) ''p'' 1 fresh
       = (Inr (JStr ''Resumo pronto''),
          fresh\<lparr>sent := [completion_request (server (\<lambda>n. Reply summary_reply)) ''p'']\<rparr>)
   \<and> retrying flaky ''p'' 1 fresh
       = retrying flaky ''p'' (1 + 1)
           (fresh\<lparr>sent := [completion_request flaky ''p''], slept := [wait_exponential 1]\<rparr>)"
proof -
  note th = retry_policy[of flaky "''p''" fresh]
  from th obtain ws where ws:
    "slept (snd (generate_content_with_retry_rest flaky ''p'' fresh)) = slept fresh @ ws"
    "\<forall>w\<in>set ws. 4 \<le> w \<and> w \<le> 10"
    by blast
  have run: "slept (snd (generate_content_with_retry_rest flaky ''p'' fresh)) = [4, 4]"
    "length (sent (snd (generate_content_with_retry_rest flaky ''p'' fresh))) = 3"
    by (simp_all add: flaky_run)
  have "slept fresh = []" by (simp add: fresh_def)
  with ws have bounds: "list_all (\<lambda>w. 4 \<le> w \<and> w \<le> 10)
        (slept (snd (generate_content_with_retry_rest flaky ''p'' fresh)))"
    by (simp add: list_all_iff)
  have other: "retrying flaky ''p'' n u = generate_content_attempt flaky ''p'' u"
    if "fst (generate_content_attempt flaky ''p'' u) = Inl e" "\<not> is_HTTPError e" for n u e
    using th that by blast
  have "retrying flaky ''p'' 3
        (fresh\<lparr>sent := [completion_request flaky ''p'', completion_request flaky ''p''],
               slept := [4, 4]\<rparr>)
       = generate_content_attempt flaky ''p''
           (fresh\<lparr>sent := [completion_request flaky ''p'', completion_request flaky ''p''],
                  slept := [4, 4]\<rparr>)"
    by (rule other[where e = "OtherError ''ConnectionError'' ''connection refused''"])
       (simp_all add: flaky_third_attempt)
  then have third: "retrying flaky ''p'' 3
        (fresh\<lparr>sent := [completion_request flaky ''p'', completion_request flaky ''p''],
               slept := [4, 4]\<rparr>)
       = (Inl (OtherError ''ConnectionError'' ''connection refused''),
          fresh\<lparr>sent := [completion_request flaky ''p'', completion_request flaky ''p'',
                          completion_request flaky ''p''],
                slept := [4, 4]\<rparr>)"
    by (simp only: flaky_third_attempt)
  have again: "retrying flaky ''p'' n u =
               retrying flaky ''p'' (n + 1)
                 ((snd (generate_content_attempt flaky ''p'' u))
                    \<lparr>slept := slept (snd (generate_content_attempt flaky ''p'' u))
                                @ [wait_exponential n]\<rparr>)"
    if "fst (generate_content_attempt flaky ''p'' u) = Inl e" "is_HTTPError e" "n < 5" for n u e
    using th that by blast
  have "retrying flaky ''p'' 1 fresh
       = retrying flaky ''p'' (1 + 1)
           ((snd (generate_content_attempt flaky ''p'' fresh))
              \<lparr>slept := slept (snd (generate_content_attempt flaky ''p'' fresh))
                          @ [wait_exponential 1]\<rparr>)"
    by (rule again[where e = "HTTPError
               ''503 Server Error: Service Unavailable for url: https://api.example/''
               (answer 503 ''Service Unavailable'' (Inl ''no JSON''))"])
       (simp_all add: flaky_first_attempt)
  then have first: "retrying flaky ''p'' 1 fresh
       = retrying flaky ''p'' (1 + 1)
           (fresh\<lparr>sent := [completion_request flaky ''p''], slept := [wait_exponential 1]\<rparr>)"
    by (simp only: flaky_first_attempt) (simp add: fresh_def)
  have ret: "retrying (server (\<lambda>n. Reply summary_reply)) ''p'' n u
                 = generate_content_attempt (server (\<lambda>n. Reply summary_reply)) ''p'' u"
    if "fst (generate_content_attempt (server (\<lambda>n. Reply summary_reply)) ''p'' u) = Inr v"
    for n u v
    using retry_policy[of "server (\<lambda>n. Reply summary_reply)" "''p''" fresh] that by blast
  have "retrying (server (\<lambda>n. Reply summary_reply)) ''p'' 1 fresh
          = generate_content_attempt (server (\<lambda>n. Reply summary_reply)) ''p'' fresh"
    by (rule ret[where v = "JStr ''Resumo pronto''"]) (simp add: summary_attempt)
  then have good: "retrying (server (\<lambda>n. Reply summary_reply)) ''p'' 1 fresh
       = (Inr (JStr ''Resumo pronto''),
          fresh\<lparr>sent := [completion_request (server (\<lambda>n. Reply summary_reply)) ''p'']\<rparr>)"
    by (simp only: summary_attempt) (simp add: fresh_def)
  from run bounds third good first show ?thesis by (intro conjI)
qed

text \<open>
  Claim C4: for every call \<^verbatim>\<open>buscar_links_google(query, num_resultados, lang)\<close> the
  \<^verbatim>\<open>hl\<close> parameter of the outgoing request equals the \<^verbatim>\<open>lang\<close> argument.

  The code sends the string \<^verbatim>\<open>"lang"\<close> whatever the argument is (\<open>hl_is_literal\<close>); the
  run below is a call with \<^verbatim>\<open>lang="pt"\<close>.
\<close>

theorem hl_ignores_lang:
  "map_of (req_params (last (sent (snd (buscar_links_google
       (server (\<lambda>n. Reply (answer 200 ''OK'' (Inr (JObj [(''organic_results'', JArr [])])))))
       ''Totvs'' 5 ''pt'' fresh))))) ''hl'' = Some (JStr ''lang'')
   \<and> JStr ''lang'' \<noteq> JStr ''pt''"
  using hl_is_literal by simp

text \<open>
  Claim C5: for every completion response whose body parses but whose ``candidates''
  field is absent or is an empty list, \<^verbatim>\<open>generate_content_with_retry_rest\<close> returns
  the fixed sentinel string and does not raise.

  As amended: the response is one that passed the status check, and its body parses to
  an object whose ``candidates'' is absent or an empty list, or to an array or a string
  in which ``candidates'' does not occur. A call that meets it at its first attempt
  ends there, without a wait, with the sentinel, and so does the loop at whatever
  attempt number \<open>n\<close> it meets it; the wording of the sentinel does not depend on the
  response or the prompt. When the body parses to null, a boolean or a number, the test
  for ``candidates'' raises a \<^verbatim>\<open>TypeError\<close>, which ends the call at that attempt.
\<close>

theorem sentinel_when_no_candidates:
  assumes "net E (length (sent t)) (completion_request E p) = Reply r"
    and "passes_status_check r"
    and "json_body r = Inr j"
  shows "(lacks_candidates j \<longrightarrow>
            fst (generate_content_with_retry_rest E p t) = Inr (JStr no_content_sentinel)
          \<and> sent (snd (generate_content_with_retry_rest E p t))
              = sent t @ [completion_request E p]
          \<and> slept (snd (generate_content_with_retry_rest E p t)) = slept t
          \<and> (\<forall>n. fst (retrying E p n t) = Inr (JStr no_content_sentinel)))
    \<and> (is_scalar j \<longrightarrow>
            generate_content_with_retry_rest E p t
              = (Inl (TypeError (''argument of type '' @ quote @ py_type_name j @ quote
                                 @ '' is not iterable'')),
                 t\<lparr>sent := sent t @ [completion_request E p]\<rparr>)
          \<and> (\<forall>n. retrying E p n t
                    = (Inl (TypeError (''argument of type '' @ quote @ py_type_name j @ quote
                                       @ '' is not iterable'')),
                       t\<lparr>sent := sent t @ [completion_request E p]\<rparr>)))
    \<and> no_content_sentinel =
        ''N'' @ [CHR 0xC3, CHR 0xA3] @ ''o foi poss'' @ [CHR 0xC3, CHR 0xAD]
        @ ''vel extrair o conte'' @ [CHR 0xC3, CHR 0xBA] @ ''do gerado pelo Gemini.''"
proof -
  have 1: "fst (generate_content_with_retry_rest E p t) = Inr (JStr no_content_sentinel)
          \<and> sent (snd (generate_content_with_retry_rest E p t))
              = sent t @ [completion_request E p]
          \<and> slept (snd (generate_content_with_retry_rest E p t)) = slept t
          \<and> (\<forall>n. fst (retrying E p n t) = Inr (JStr no_content_sentinel))"
    if "lacks_candidates j"
  proof -
    note a = attempt_lacks_candidates[OF assms that]
    have r: "retrying E p n t = generate_content_attempt E p t" for n
      by (rule retrying_returns_value[where v = "JStr no_content_sentinel"]) (simp add: a)
    show ?thesis
      by (simp add: generate_content_with_retry_rest_def r a display_def)
  qed
  have 2: "generate_content_with_retry_rest E p t
              = (Inl (TypeError (''argument of type '' @ quote @ py_type_name j @ quote
                                 @ '' is not iterable'')),
                 t\<lparr>sent := sent t @ [completion_request E p]\<rparr>)
          \<and> (\<forall>n. retrying E p n t
                    = (Inl (TypeError (''argument of type '' @ quote @ py_type_name j @ quote
                                       @ '' is not iterable'')),
                       t\<lparr>sent := sent t @ [completion_request E p]\<rparr>))"
    if "is_scalar j"
  proof -
    note a = attempt_scalar_body[OF assms that]
    have r: "retrying E p n t = generate_content_attempt E p t" for n
      by (rule retrying_propagates[where e = "TypeError (''argument of type '' @ quote
                 @ py_type_name j @ quote @ '' is not iterable'')"]) (simp_all add: a)
    show ?thesis
      by (simp add: generate_content_with_retry_rest_def r a)
  qed
  have 3: "no_content_sentinel =
        ''N'' @ [CHR 0xC3, CHR 0xA3] @ ''o foi poss'' @ [CHR 0xC3, CHR 0xAD]
        @ ''vel extrair o conte'' @ [CHR 0xC3, CHR 0xBA] @ ''do gerado pelo Gemini.''"
    by (simp add: no_content_sentinel_def)
  from 1 2 3 show ?thesis by blast
qed

theorem sentinel_when_no_candidates_witness:
  "passes_status_check (answer 200 ''OK'' (Inr (JObj [(''candidates'', JArr [])])))
   \<and> lacks_candidates (JObj [(''candidates'', JArr [])])
   \<and> fst (generate_content_with_retry_rest
            (server (\<lambda>n. Reply (answer 200 ''OK'' (Inr (JObj [(''candidates'', JArr [])])))))
            ''p'' fresh) = Inr (JStr no_content_sentinel)
   \<and> lacks_candidates (JObj [(''usageMetadata'', JObj [])])
   \<and> fst (generate_content_with_retry_rest
            (server (\<lambda>n. Reply (answer 200 ''OK'' (Inr (JObj [(''usageMetadata'', JObj [])])))))
            ''p'' fresh) = Inr (JStr no_content_sentinel)
   \<and> lacks_candidates (JArr [])
   \<and> fst (generate_content_with_retry_rest
            (server (\<lambda>n. Reply (answer 200 ''OK'' (Inr (JArr []))))) ''p'' fresh)
       = Inr (JStr no_content_sentinel)
   \<and> is_scalar (JInt 0)
   \<and> fst (generate_content_with_retry_rest
            (server (\<lambda>n. Reply (answer 200 ''OK'' (Inr (JInt 0))))) ''p'' fresh)
       = Inl (TypeError (''argument of type '' @ quote @ ''int'' @ quote @ '' is not iterable''))"
proof -
  have s1: "passes_status_check (answer 200 ''OK'' b)" for b
    by (simp add: passes_status_check_def answer_def)
  have c1: "lacks_candidates (JObj [(''candidates'', JArr [])])"
    by (simp add: candidates_absent_or_empty_def)
  have c2: "lacks_candidates (JObj [(''usageMetadata'', JObj [])])"
    by (simp add: candidates_absent_or_empty_def)
  have c3: "lacks_candidates (JArr [])"
    by simp
  have c4: "is_scalar (JInt 0)"
    by simp
  have n: "net (server (\<lambda>n. Reply (answer 200 ''OK'' b))) k q = Reply (answer 200 ''OK'' b)" for b k q
    by (simp add: server_def)
  have j: "json_body (answer 200 ''OK'' (Inr b)) = Inr b" for b
    by (simp add: answer_def)
  have th: "(lacks_candidates b \<longrightarrow>
               fst (generate_content_with_retry_rest
                      (server (\<lambda>n. Reply (answer 200 ''OK'' (Inr b)))) ''p'' fresh)
                 = Inr (JStr no_content_sentinel))
          \<and> (is_scalar b \<longrightarrow>
               fst (generate_content_with_retry_rest
                      (server (\<lambda>n. Reply (answer 200 ''OK'' (Inr b)))) ''p'' fresh)
                 = Inl (TypeError (''argument of type '' @ quote @ py_type_name b @ quote
                                   @ '' is not iterable'')))" for b
    using sentinel_when_no_candidates[OF n[of "Inr b"] s1[of "Inr b"] j[of b],
            where p = "''p''" and t = fresh]
    by simp
  show ?thesis
    using th[of "JObj [(''candidates'', JArr [])]"] th[of "JObj [(''usageMetadata'', JObj [])]"]
          th[of "JArr []"] th[of "JInt 0"] s1 c1 c2 c3 c4
    by simp
qed

text \<open>
  The claim C5 as it is stated fails on an answer with status 200 whose body is
  \<^verbatim>\<open>null\<close>: the body parses and has no ``candidates'', and the call raises a
  \<^verbatim>\<open>TypeError\<close> where the claim has it return the sentinel.
\<close>

theorem null_body_is_type_error:
  "json_body (answer 200 ''OK'' (Inr JNull)) = Inr JNull
   \<and> passes_status_check (answer 200 ''OK'' (Inr JNull))
   \<and> fst (generate_content_with_retry_rest
            (server (\<lambda>n. Reply (answer 200 ''OK'' (Inr JNull)))) ''p'' fresh)
       = Inl (TypeError (''argument of type '' @ quote @ ''NoneType'' @ quote
                         @ '' is not iterable''))
   \<and> fst (generate_content_with_retry_rest
            (server (\<lambda>n. Reply (answer 200 ''OK'' (Inr JNull)))) ''p'' fresh)
       \<noteq> Inr (JStr no_content_sentinel)"
  by (simp add: generate_content_with_retry_rest_def retrying.simps generate_content_attempt_def
        send_def server_def answer_def raise_for_status_def after_raise_for_status_def
        response_json_def fresh_def passes_status_check_def)

text \<open>
  Claim C6: for a response with status 429 an attempt never returns normally; it raises
  an \<^verbatim>\<open>HTTPError\<close>, so the attempt is retried, and the explicit test for 429 forces the
  error whenever control reaches it with that status.

  The attempt raises the \<^verbatim>\<open>HTTPError\<close> of \<^verbatim>\<open>raise_for_status\<close> whatever the body is;
  before the fifth attempt the loop then waits and tries again; and the code from the
  explicit test on (line 49, which stands before the parse) raises its own
  \<^verbatim>\<open>HTTPError\<close> when it is entered with status 429.
\<close>

theorem too_many_requests_is_http_error:
  assumes "status_code r = 429"
  shows "(\<forall>E p t. net E (length (sent t)) (completion_request E p) = Reply r \<longrightarrow>
            (\<exists>m. generate_content_attempt E p t
                   = (Inl (HTTPError m r), t\<lparr>sent := sent t @ [completion_request E p]\<rparr>)))
       \<and> (\<forall>E p t n. net E (length (sent t)) (completion_request E p) = Reply r \<and> n < 5 \<longrightarrow>
            retrying E p n t =
              retrying E p (n + 1)
                (t\<lparr>sent := sent t @ [completion_request E p],
                   slept := slept t @ [wait_exponential n]\<rparr>))
       \<and> (\<forall>t. after_raise_for_status r t
                 = (Inl (HTTPError ''Too Many Requests (429) received.'' r), t))"
proof -
  have r: "400 \<le> status_code r" "status_code r < 600" using assms by simp_all
  have 1: "\<exists>m. generate_content_attempt E p t
                   = (Inl (HTTPError m r), t\<lparr>sent := sent t @ [completion_request E p]\<rparr>)"
    if "net E (length (sent t)) (completion_request E p) = Reply r" for E p t
    using attempt_http_error[OF that r] by blast
  have 2: "retrying E p n t =
              retrying E p (n + 1)
                (t\<lparr>sent := sent t @ [completion_request E p],
                   slept := slept t @ [wait_exponential n]\<rparr>)"
    if "net E (length (sent t)) (completion_request E p) = Reply r" "n < 5" for E p t n
  proof -
    from 1[OF that(1)] obtain m where
      m: "generate_content_attempt E p t
            = (Inl (HTTPError m r), t\<lparr>sent := sent t @ [completion_request E p]\<rparr>)" by blast
    show ?thesis
      using retrying_retries[of E p t "HTTPError m r" n] m that(2) by simp
  qed
  have 3: "after_raise_for_status r t
                 = (Inl (HTTPError ''Too Many Requests (429) received.'' r), t)" for t
    using assms by (simp add: after_raise_for_status_def)
  show ?thesis using 1 2 3 by blast
qed

theorem too_many_requests_is_http_error_witness:
  "status_code (answer 429 ''Too Many Requests'' (Inr (JObj []))) = 429
   \<and> (\<exists>m. generate_content_attempt
            (server (\<lambda>n. Reply (answer 429 ''Too Many Requests'' (Inr (JObj []))))) ''p'' fresh
          = (Inl (HTTPError m (answer 429 ''Too Many Requests'' (Inr (JObj [])))),
             fresh\<lparr>sent := sent fresh @ [completion_request
                (server (\<lambda>n. Reply (answer 429 ''Too Many Requests'' (Inr (JObj []))))) ''p'']\<rparr>))
   \<and> fst (generate_content_attempt
            (server (\<lambda>n. Reply (answer 429 ''Too Many Requests'' (Inr (JObj []))))) ''p'' fresh)
       = Inl (HTTPError ''429 Client Error: Too Many Requests for url: https://api.example/''
                (answer 429 ''Too Many Requests'' (Inr (JObj []))))
   \<and> after_raise_for_status (answer 429 ''Too Many Requests'' (Inr (JObj []))) fresh
       = (Inl (HTTPError ''Too Many Requests (429) received.''
                (answer 429 ''Too Many Requests'' (Inr (JObj [])))), fresh)"
proof -
  let ?r = "answer 429 ''Too Many Requests'' (Inr (JObj []))"
  let ?E = "server (\<lambda>n. Reply ?r)"
  have s: "status_code ?r = 429"
    by (simp add: answer_def)
  note th = too_many_requests_is_http_error[OF s]
  have n: "net ?E (length (sent fresh)) (completion_request ?E ''p'') = Reply ?r"
    by (simp add: server_def)
  from th n have a: "\<exists>m. generate_content_attempt ?E ''p'' fresh
          = (Inl (HTTPError m ?r), fresh\<lparr>sent := sent fresh @ [completion_request ?E ''p'']\<rparr>)"
    by blast
  have b: "fst (generate_content_attempt ?E ''p'' fresh)
       = Inl (HTTPError ''429 Client Error: Too Many Requests for url: https://api.example/'' ?r)"
    by (simp add: generate_content_attempt_def send_def server_def answer_def
          raise_for_status_def str_int_def str_nat.simps fresh_def)
  from th have c: "after_raise_for_status ?r fresh
       = (Inl (HTTPError ''Too Many Requests (429) received.'' ?r), fresh)"
    by blast
  from s a b c show ?thesis by (intro conjI)
qed

text \<open>
  Claim C7: \<^verbatim>\<open>buscar_links_google\<close> never raises to its caller; whenever the
  transport, the status check, or the parsing or extraction of the response fails, it
  returns an empty sequence, signalling the error only through the display calls; and
  in the success path it returns the ``link'' of each entry of the organic results in
  response order, skipping entries without one.

  As amended: when the extraction stops at an entry of the organic results, what is
  returned is the links of the entries before that one, which need not be empty, and
  the exception that stopped it is handed to \<^verbatim>\<open>st.error\<close>. The function has a result
  for every network and every trace (every exception of the \<^verbatim>\<open>try\<close> block is taken
  by line 83). The result is empty when no response arrives, when the status is from
  400 to 599 and when the body does not parse, each time with the exception handed to
  \<^verbatim>\<open>st.error\<close>, and when the parsed body carries no list of results. When it carries
  one, the result is the links of all its entries in order, with no error shown, if
  the extraction stops at none of them, and otherwise as said.
\<close>

theorem search_absorbs_failures:
  "(\<forall>c m. search_reply E q n lang t = Fails c m \<longrightarrow>
       fst (buscar_links_google E q n lang t) = []
       \<and> errors_shown (snd (buscar_links_google E q n lang t))
           = errors_shown t @ [OtherError c m])
   \<and> (\<forall>r. search_reply E q n lang t = Reply r \<and> \<not> passes_status_check r \<longrightarrow>
       fst (buscar_links_google E q n lang t) = []
       \<and> (\<exists>m. errors_shown (snd (buscar_links_google E q n lang t))
                 = errors_shown t @ [HTTPError m r]))
   \<and> (\<forall>r m. search_reply E q n lang t = Reply r \<and> passes_status_check r
            \<and> json_body r = Inl m \<longrightarrow>
       fst (buscar_links_google E q n lang t) = []
       \<and> errors_shown (snd (buscar_links_google E q n lang t))
           = errors_shown t @ [JSONDecodeError m])
   \<and> (\<forall>r j. search_reply E q n lang t = Reply r \<and> passes_status_check r
            \<and> json_body r = Inr j \<and> \<not> has_results_list j \<longrightarrow>
       fst (buscar_links_google E q n lang t) = [])
   \<and> (\<forall>r kvs items. search_reply E q n lang t = Reply r \<and> passes_status_check r
            \<and> json_body r = Inr (JObj kvs)
            \<and> map_of kvs ''organic_results'' = Some (JArr items)
            \<and> (\<forall>x\<in>set items. entry_error x = None) \<longrightarrow>
       fst (buscar_links_google E q n lang t) = links_in_order items
       \<and> errors_shown (snd (buscar_links_google E q n lang t)) = errors_shown t)
   \<and> (\<forall>r kvs before bad after e. search_reply E q n lang t = Reply r
            \<and> passes_status_check r \<and> json_body r = Inr (JObj kvs)
            \<and> map_of kvs ''organic_results'' = Some (JArr (before @ bad # after))
            \<and> (\<forall>x\<in>set before. entry_error x = None) \<and> entry_error bad = Some e \<longrightarrow>
       fst (buscar_links_google E q n lang t) = links_in_order before
       \<and> errors_shown (snd (buscar_links_google E q n lang t)) = errors_shown t @ [e])"
proof -
  have 1: "fst (buscar_links_google E q n lang t) = []
       \<and> errors_shown (snd (buscar_links_google E q n lang t))
           = errors_shown t @ [OtherError c m]"
    if "search_reply E q n lang t = Fails c m" for c m
    using that
    by (simp add: buscar_links_google_def search_try_def send_def search_reply_def Let_def)
  have 2: "fst (buscar_links_google E q n lang t) = []
       \<and> (\<exists>m. errors_shown (snd (buscar_links_google E q n lang t))
                 = errors_shown t @ [HTTPError m r])"
    if "search_reply E q n lang t = Reply r" "\<not> passes_status_check r" for r
    using that(1) raise_for_status_fails[OF that(2)]
    by (auto simp: buscar_links_google_def search_try_def send_def search_reply_def Let_def)
  have 3: "fst (buscar_links_google E q n lang t) = []
       \<and> errors_shown (snd (buscar_links_google E q n lang t))
           = errors_shown t @ [JSONDecodeError m]"
    if "search_reply E q n lang t = Reply r" "passes_status_check r" "json_body r = Inl m" for r m
    using that(1,3) raise_for_status_passes[OF that(2)]
    by (simp add: buscar_links_google_def search_try_def send_def search_reply_def Let_def
          response_json_def)
  have 4: "fst (buscar_links_google E q n lang t) = []"
    if h: "search_reply E q n lang t = Reply r" "passes_status_check r" "json_body r = Inr j"
       "\<not> has_results_list j" for r j
  proof -
    have "fst (buscar_links_google E q n lang t) = []
       \<or> (\<exists>r kvs items k. search_reply E q n lang t = Reply r \<and> passes_status_check r
            \<and> json_body r = Inr (JObj kvs)
            \<and> map_of kvs ''organic_results'' = Some (JArr items) \<and> k \<le> length items
            \<and> fst (buscar_links_google E q n lang t) = links_in_order (take k items))"
      unfolding buscar_fst search_reply_def
      using search_try_links[of E q n lang
              "display (St_info [Lit ''Buscando '', Val (JInt n),
                              Lit ('' links no Google para: '' @ quote), Val (JStr q),
                              Lit (quote @ '' (via SerpApi)...'')]) t"]
      by simp
    then show ?thesis
    proof
      assume "\<exists>r kvs items k. search_reply E q n lang t = Reply r \<and> passes_status_check r
            \<and> json_body r = Inr (JObj kvs)
            \<and> map_of kvs ''organic_results'' = Some (JArr items) \<and> k \<le> length items
            \<and> fst (buscar_links_google E q n lang t) = links_in_order (take k items)"
      then obtain kvs items where "j = JObj kvs" "map_of kvs ''organic_results'' = Some (JArr items)"
        using h(1,3) by auto
      then have "has_results_list j" by simp
      with h(4) show ?thesis by simp
    qed
  qed
  have 5: "fst (buscar_links_google E q n lang t) = links_in_order items
       \<and> errors_shown (snd (buscar_links_google E q n lang t)) = errors_shown t"
    if "search_reply E q n lang t = Reply r" "passes_status_check r"
       "json_body r = Inr (JObj kvs)" "map_of kvs ''organic_results'' = Some (JArr items)"
       "\<forall>x\<in>set items. entry_error x = None" for r kvs items
    using that(1,3,4) raise_for_status_passes[OF that(2)] collect_links_all_pass[OF that(5), of "[]"]
    by (simp add: buscar_links_google_def search_try_def send_def search_reply_def Let_def
          response_json_def)
  have 6: "fst (buscar_links_google E q n lang t) = links_in_order before
       \<and> errors_shown (snd (buscar_links_google E q n lang t)) = errors_shown t @ [e]"
    if "search_reply E q n lang t = Reply r" "passes_status_check r"
       "json_body r = Inr (JObj kvs)"
       "map_of kvs ''organic_results'' = Some (JArr (before @ bad # after))"
       "\<forall>x\<in>set before. entry_error x = None" "entry_error bad = Some e"
    for r kvs before bad after e
    using that(1,3,4) raise_for_status_passes[OF that(2)]
          collect_links_stops_at[OF that(5,6), of after "[]"]
    by (simp add: buscar_links_google_def search_try_def send_def search_reply_def Let_def
          response_json_def)
  show ?thesis
    using 1 2 3 4 5 6 by blast
qed

theorem search_absorbs_failures_witness:
  "fst (buscar_links_google (server (\<lambda>n. Fails ''ConnectionError'' ''connection refused''))
          ''Totvs'' 5 ''pt'' fresh) = []
   \<and> errors_shown (snd (buscar_links_google
          (server (\<lambda>n. Fails ''ConnectionError'' ''connection refused'')) ''Totvs'' 5 ''pt'' fresh))
       = [OtherError ''ConnectionError'' ''connection refused'']
   \<and> fst (buscar_links_google (server (\<lambda>n. Reply (answer 401 ''Unauthorized'' (Inr (JObj [])))))
          ''Totvs'' 5 ''pt'' fresh) = []
   \<and> fst (buscar_links_google (server (\<lambda>n. Reply (answer 200 ''OK'' (Inl ''Expecting value''))))
          ''Totvs'' 5 ''pt'' fresh) = []
   \<and> errors_shown (snd (buscar_links_google
          (server (\<lambda>n. Reply (answer 200 ''OK'' (Inl ''Expecting value'')))) ''Totvs'' 5 ''pt'' fresh))
       = [JSONDecodeError ''Expecting value'']
   \<and> fst (buscar_links_google (server (\<lambda>n. Reply refusal_reply)) ''Totvs'' 5 ''pt'' fresh) = []
   \<and> fst (buscar_links_google (server (\<lambda>n. Reply good_results_reply)) ''Totvs'' 5 ''pt'' fresh)
       = [JStr ''https://a.example'', JStr ''https://c.example'']
   \<and> errors_shown (snd (buscar_links_google (server (\<lambda>n. Reply good_results_reply))
          ''Totvs'' 5 ''pt'' fresh)) = []
   \<and> entry_error JNull
       = Some (TypeError (''argument of type '' @ quote @ ''NoneType'' @ quote
                          @ '' is not iterable''))
   \<and> fst (buscar_links_google (server (\<lambda>n. Reply broken_results_reply)) ''Totvs'' 5 ''pt'' fresh)
       = [JStr ''https://a.example'']
   \<and> errors_shown (snd (buscar_links_google (server (\<lambda>n. Reply broken_results_reply))
          ''Totvs'' 5 ''pt'' fresh))
       = [TypeError (''argument of type '' @ quote @ ''NoneType'' @ quote
                     @ '' is not iterable'')]"
proof -
  let ?down = "server (\<lambda>n. Fails ''ConnectionError'' ''connection refused'')"
  let ?deny = "server (\<lambda>n. Reply (answer 401 ''Unauthorized'' (Inr (JObj []))))"
  let ?html = "server (\<lambda>n. Reply (answer 200 ''OK'' (Inl ''Expecting value'')))"
  let ?refuse = "server (\<lambda>n. Reply refusal_reply)"
  let ?up = "server (\<lambda>n. Reply good_results_reply)"
  let ?broken = "server (\<lambda>n. Reply broken_results_reply)"
  have rep: "search_reply (server f) ''Totvs'' 5 ''pt'' fresh = f 0" for f
    by (simp add: search_reply_def server_def fresh_def)
  have e: "errors_shown fresh = []"
    by (simp add: errors_shown_def fresh_def)
  have a: "fst (buscar_links_google ?down ''Totvs'' 5 ''pt'' fresh) = []
       \<and> errors_shown (snd (buscar_links_google ?down ''Totvs'' 5 ''pt'' fresh))
           = errors_shown fresh @ [OtherError ''ConnectionError'' ''connection refused'']"
    using search_absorbs_failures[of ?down "''Totvs''" 5 "''pt''" fresh] rep[of "\<lambda>n. Fails ''ConnectionError'' ''connection refused''"]
    by blast
  have "\<not> passes_status_check (answer 401 ''Unauthorized'' (Inr (JObj [])))"
    by (simp add: passes_status_check_def answer_def)
  then have b: "fst (buscar_links_google ?deny ''Totvs'' 5 ''pt'' fresh) = []"
    using search_absorbs_failures[of ?deny "''Totvs''" 5 "''pt''" fresh]
          rep[of "\<lambda>n. Reply (answer 401 ''Unauthorized'' (Inr (JObj [])))"]
    by blast
  have "passes_status_check (answer 200 ''OK'' (Inl ''Expecting value''))"
       "json_body (answer 200 ''OK'' (Inl ''Expecting value'')) = Inl ''Expecting value''"
    by (simp_all add: passes_status_check_def answer_def)
  then have c: "fst (buscar_links_google ?html ''Totvs'' 5 ''pt'' fresh) = []
       \<and> errors_shown (snd (buscar_links_google ?html ''Totvs'' 5 ''pt'' fresh))
           = errors_shown fresh @ [JSONDecodeError ''Expecting value'']"
    using search_absorbs_failures[of ?html "''Totvs''" 5 "''pt''" fresh]
          rep[of "\<lambda>n. Reply (answer 200 ''OK'' (Inl ''Expecting value''))"]
    by blast
  have "passes_status_check refusal_reply"
       "json_body refusal_reply = Inr (JObj [(''error'', JStr ''Invalid API key.'')])"
       "\<not> has_results_list (JObj [(''error'', JStr ''Invalid API key.'')])"
    by (simp_all add: passes_status_check_def refusal_reply_def answer_def)
  then have r: "fst (buscar_links_google ?refuse ''Totvs'' 5 ''pt'' fresh) = []"
    using search_absorbs_failures[of ?refuse "''Totvs''" 5 "''pt''" fresh]
          rep[of "\<lambda>n. Reply refusal_reply"]
    by blast
  have p: "passes_status_check good_results_reply"
    by (simp add: passes_status_check_def good_results_reply_def answer_def)
  have j: "json_body good_results_reply
             = Inr (JObj [(''organic_results'',
        JArr [JObj [(''position'', JInt 1), (''link'', JStr ''https://a.example'')],
              JObj [(''position'', JInt 2), (''title'', JStr ''sem link'')],
              JObj [(''position'', JInt 3), (''link'', JStr ''https://c.example'')]])])"
    by (simp add: good_results_reply_def answer_def)
  have m: "map_of [(''organic_results'', v)] ''organic_results'' = Some v" for v :: json
    by simp
  have allp: "\<forall>x\<in>set
        [JObj [(''position'', JInt 1), (''link'', JStr ''https://a.example'')],
         JObj [(''position'', JInt 2), (''title'', JStr ''sem link'')],
         JObj [(''position'', JInt 3), (''link'', JStr ''https://c.example'')]].
        entry_error x = None"
    by simp
  from search_absorbs_failures[of ?up "''Totvs''" 5 "''pt''" fresh] rep[of "\<lambda>n. Reply good_results_reply"] p j m allp
  have "fst (buscar_links_google ?up ''Totvs'' 5 ''pt'' fresh)
             = links_in_order
                 [JObj [(''position'', JInt 1), (''link'', JStr ''https://a.example'')],
                  JObj [(''position'', JInt 2), (''title'', JStr ''sem link'')],
                  JObj [(''position'', JInt 3), (''link'', JStr ''https://c.example'')]]
       \<and> errors_shown (snd (buscar_links_google ?up ''Totvs'' 5 ''pt'' fresh)) = errors_shown fresh"
    by blast
  then have d: "fst (buscar_links_google ?up ''Totvs'' 5 ''pt'' fresh)
             = [JStr ''https://a.example'', JStr ''https://c.example'']
       \<and> errors_shown (snd (buscar_links_google ?up ''Totvs'' 5 ''pt'' fresh)) = errors_shown fresh"
    by simp
  have pb: "passes_status_check broken_results_reply"
    by (simp add: passes_status_check_def broken_results_reply_def answer_def)
  have jb: "json_body broken_results_reply
             = Inr (JObj [(''organic_results'',
        JArr ([JObj [(''position'', JInt 1), (''link'', JStr ''https://a.example'')]] @ JNull
              # [JObj [(''position'', JInt 3), (''link'', JStr ''https://c.example'')]]))])"
    by (simp add: broken_results_reply_def answer_def)
  have bef: "\<forall>x\<in>set [JObj [(''position'', JInt 1), (''link'', JStr ''https://a.example'')]].
        entry_error x = None"
    by simp
  have bad: "entry_error JNull
       = Some (TypeError (''argument of type '' @ quote @ ''NoneType'' @ quote
                          @ '' is not iterable''))"
    by simp
  from search_absorbs_failures[of ?broken "''Totvs''" 5 "''pt''" fresh] rep[of "\<lambda>n. Reply broken_results_reply"] pb jb m bef bad
  have "fst (buscar_links_google ?broken ''Totvs'' 5 ''pt'' fresh)
             = links_in_order [JObj [(''position'', JInt 1), (''link'', JStr ''https://a.example'')]]
       \<and> errors_shown (snd (buscar_links_google ?broken ''Totvs'' 5 ''pt'' fresh))
           = errors_shown fresh
             @ [TypeError (''argument of type '' @ quote @ ''NoneType'' @ quote
                           @ '' is not iterable'')]"
    by blast
  then have f: "fst (buscar_links_google ?broken ''Totvs'' 5 ''pt'' fresh)
             = [JStr ''https://a.example'']
       \<and> errors_shown (snd (buscar_links_google ?broken ''Totvs'' 5 ''pt'' fresh))
           = errors_shown fresh
             @ [TypeError (''argument of type '' @ quote @ ''NoneType'' @ quote
                           @ '' is not iterable'')]"
    by simp
  from a b c r d f e bad show ?thesis by simp
qed

text \<open>
  The claim C7 as it is stated fails on an answer whose second entry is null: the
  extraction fails there, and the link of the first entry is returned.
\<close>

theorem partial_links_after_failure:
  "fst (buscar_links_google (server (\<lambda>n. Reply broken_results_reply)) ''Totvs'' 5 ''pt'' fresh)
     = [JStr ''https://a.example'']
   \<and> errors_shown (snd (buscar_links_google (server (\<lambda>n. Reply broken_results_reply))
          ''Totvs'' 5 ''pt'' fresh))
       = [TypeError (''argument of type '' @ quote @ ''NoneType'' @ quote @ '' is not iterable'')]
   \<and> [JStr ''https://a.example''] \<noteq> ([] :: json list)"
  by (simp add: buscar_links_google_def search_try_def send_def server_def broken_results_reply_def
        answer_def raise_for_status_def response_json_def fresh_def Let_def errors_shown_def
        display_def)

text \<open>
  Claim C8: for the empty list of links \<^verbatim>\<open>resumir_com_gemini\<close> returns the fixed
  no-relevant-links message and makes no call to
  \<^verbatim>\<open>generate_content_with_retry_rest\<close>.

  A call of \<^verbatim>\<open>generate_content_with_retry_rest\<close> always issues a request; here none is
  issued and nothing is waited for.
\<close>

theorem no_links_short_circuit:
  "fst (resumir_com_gemini E [] t) = JStr no_links_message
   \<and> sent (snd (resumir_com_gemini E [] t)) = sent t
   \<and> slept (snd (resumir_com_gemini E [] t)) = slept t
   \<and> (\<forall>p u. sent (snd (generate_content_with_retry_rest E p u)) \<noteq> sent u)
   \<and> no_links_message =
        ''N'' @ [CHR 0xC3, CHR 0xA3] @ ''o foi poss'' @ [CHR 0xC3, CHR 0xAD]
        @ ''vel gerar um resumo, pois nenhum link relevante foi fornecido ou encontrado.''"
proof -
  have "sent (snd (generate_content_with_retry_rest E p u)) \<noteq> sent u" for p u
    using retrying_trace[of E p 1 u]
    by (auto simp: generate_content_with_retry_rest_def)
  then show ?thesis
    by (simp add: resumir_com_gemini_def display_def no_links_message_def)
qed

text \<open>
  Claim C9: for every non-empty list of links, the prompt that \<^verbatim>\<open>resumir_com_gemini\<close>
  passes to \<^verbatim>\<open>generate_content_with_retry_rest\<close> embeds exactly those URLs, each
  consecutive pair joined by a line break and a dash, and contains the five theme
  headers and the instruction to flag conflicting or missing information; and when
  the call returns, what it returns is returned unmodified.

  Every request the summary issues (there is at least one) is the completion request
  for one prompt, which is its only text part: the fixed head, the first link, each
  further link after a line break, a dash and a space, and the fixed tail.
\<close>

theorem prompt_and_pass_through:
  assumes "links \<noteq> []"
  shows "(\<exists>reqs. reqs \<noteq> []
            \<and> sent (snd (resumir_com_gemini E links t)) = sent t @ reqs
            \<and> set reqs = {completion_request E (analysis_prompt (join (nl @ ''- '') links))})
    \<and> req_json (completion_request E (analysis_prompt (join (nl @ ''- '') links)))
         = Some (JObj [(''contents'', JArr [JObj [(''parts'',
             JArr [JObj [(''text'', JStr (analysis_prompt (join (nl @ ''- '') links)))]])]])])
    \<and> analysis_prompt (join (nl @ ''- '') links)
         = prompt_head @ hd links @ concat (map (\<lambda>u. nl @ ''- '' @ u) (tl links)) @ prompt_tail
    \<and> (\<forall>h\<in>set theme_headers. sublist h (analysis_prompt (join (nl @ ''- '') links)))
    \<and> sublist conflict_instruction (analysis_prompt (join (nl @ ''- '') links))
    \<and> (\<forall>v t1. generate_content_with_retry_rest E (analysis_prompt (join (nl @ ''- '') links))
                  (display summary_started t) = (Inr v, t1)
               \<longrightarrow> resumir_com_gemini E links t = (v, t1))"
proof -
  have 2: "req_json (completion_request E p)
         = Some (JObj [(''contents'', JArr [JObj [(''parts'',
             JArr [JObj [(''text'', JStr p)]])]])])" for p
    by (simp add: completion_request_def)
  have 3: "analysis_prompt (join (nl @ ''- '') links)
         = prompt_head @ hd links @ concat (map (\<lambda>u. nl @ ''- '' @ u) (tl links)) @ prompt_tail"
    using assms by (simp add: analysis_prompt_def join_hd_tl)
  have 4: "\<forall>h\<in>set theme_headers. sublist h (analysis_prompt (join (nl @ ''- '') links))"
    using headers_in_head sublist_prompt by blast
  have 5: "sublist conflict_instruction (analysis_prompt (join (nl @ ''- '') links))"
    using instruction_in_head by (rule sublist_prompt)
  have 6: "resumir_com_gemini E links t = (v, t1)"
    if "generate_content_with_retry_rest E (analysis_prompt (join (nl @ ''- '') links))
                  (display summary_started t) = (Inr v, t1)" for v t1
    using assms that by (simp add: resumir_nonempty)
  show ?thesis
    using resumir_requests[OF assms, of E t] 2 3 4 5 6 by blast
qed

theorem prompt_and_pass_through_witness:
  "[''https://a.example'', ''https://b.example''] \<noteq> []
   \<and> fst (resumir_com_gemini (server (\<lambda>n. Reply summary_reply))
            [''https://a.example'', ''https://b.example''] fresh) = JStr ''Resumo pronto''
   \<and> analysis_prompt (join (nl @ ''- '') [''https://a.example'', ''https://b.example''])
        = prompt_head @ ''https://a.example'' @ nl @ ''- https://b.example'' @ prompt_tail
   \<and> list_all (\<lambda>h. sublist h
         (analysis_prompt (join (nl @ ''- '') [''https://a.example'', ''https://b.example''])))
         theme_headers"
proof -
  have ne: "[''https://a.example'', ''https://b.example''] \<noteq> []" by simp
  note th = prompt_and_pass_through[OF ne, of "server (\<lambda>n. Reply summary_reply)" fresh]
  have imp: "resumir_com_gemini (server (\<lambda>n. Reply summary_reply))
            [''https://a.example'', ''https://b.example''] fresh = (v, t1)"
    if "generate_content_with_retry_rest (server (\<lambda>n. Reply summary_reply))
          (analysis_prompt (join (nl @ ''- '') [''https://a.example'', ''https://b.example'']))
          (display summary_started fresh) = (Inr v, t1)" for v t1
    using th that by blast
  have a: "fst (resumir_com_gemini (server (\<lambda>n. Reply summary_reply))
            [''https://a.example'', ''https://b.example''] fresh) = JStr ''Resumo pronto''"
    using imp[OF summary_run] by simp
  have "analysis_prompt (join (nl @ ''- '') [''https://a.example'', ''https://b.example''])
        = prompt_head @ hd [''https://a.example'', ''https://b.example'']
          @ concat (map (\<lambda>u. nl @ ''- '' @ u) (tl [''https://a.example'', ''https://b.example'']))
          @ prompt_tail"
    using th by blast
  then have b: "analysis_prompt (join (nl @ ''- '') [''https://a.example'', ''https://b.example''])
        = prompt_head @ ''https://a.example'' @ nl @ ''- https://b.example'' @ prompt_tail"
    by simp
  have c: "list_all (\<lambda>h. sublist h
         (analysis_prompt (join (nl @ ''- '') [''https://a.example'', ''https://b.example''])))
         theme_headers"
  proof -
    from th have "\<forall>h\<in>set theme_headers. sublist h
         (analysis_prompt (join (nl @ ''- '') [''https://a.example'', ''https://b.example'']))"
      by blast
    then show ?thesis by (simp only: list_all_iff)
  qed
  from a b c show ?thesis by simp
qed

text \<open>
  Claim C10: for every completion response whose ``candidates'' list is present and
  non-empty but whose first candidate lacks the expected content/parts/text structure,
  \<^verbatim>\<open>generate_content_with_retry_rest\<close> raises a lookup error (not an HTTP error, so
  there is no retry and the sentinel is not returned), and \<^verbatim>\<open>resumir_com_gemini\<close>
  turns it into the generic unknown-error message naming the exception's type.

  As amended: the exception is a \<^verbatim>\<open>KeyError\<close>, an \<^verbatim>\<open>IndexError\<close> or a \<^verbatim>\<open>TypeError\<close>
  (the last for instance when ``content'' is null, and \<^verbatim>\<open>TypeError\<close> is no
  \<^verbatim>\<open>LookupError\<close>). The response is one that passed the status check, with a JSON
  object as its body. A call that meets it at its first attempt ends there, without a
  wait, and so does the loop at whatever attempt number \<open>n\<close> it meets it.
\<close>

theorem malformed_candidate_raises:
  assumes "net E (length (sent t)) (completion_request E p) = Reply r"
    and "passes_status_check r"
    and "json_body r = Inr (JObj kvs)"
    and "map_of kvs ''candidates'' = Some (JArr (c # cs))"
    and "\<not> has_text_structure c"
  shows "\<exists>e. is_subscript_error e \<and> \<not> is_HTTPError e
          \<and> generate_content_with_retry_rest E p t
              = (Inl e, t\<lparr>sent := sent t @ [completion_request E p]\<rparr>)
          \<and> (\<forall>n. retrying E p n t
                    = (Inl e, t\<lparr>sent := sent t @ [completion_request E p]\<rparr>))
          \<and> (\<forall>links. links \<noteq> [] \<and> analysis_prompt (join (nl @ ''- '') links) = p
                \<longrightarrow> fst (resumir_com_gemini E links t) = JStr (unknown_error_message e))"
proof -
  from lacking_candidate[OF assms(5)] obtain e where
    e: "subscripts c [KStr ''content'', KStr ''parts'', KInt 0, KStr ''text''] = Inl e"
       "is_subscript_error e" by blast
  have nh: "\<not> is_HTTPError e" using e(2) by (rule subscript_error_not_http)
  have loop: "retrying E p n u = (Inl e, u\<lparr>sent := sent u @ [completion_request E p]\<rparr>)"
    if "sent u = sent t" for u n
  proof -
    have a: "generate_content_attempt E p u
           = (Inl e, u\<lparr>sent := sent u @ [completion_request E p]\<rparr>)"
      using assms(1) that by (intro attempt_lacking_candidate[OF _ assms(2,3,4) e(1)]) simp
    have "retrying E p n u = generate_content_attempt E p u"
      by (rule retrying_propagates[where e = e]) (simp_all add: a nh)
    then show ?thesis by (simp add: a)
  qed
  have gen: "generate_content_with_retry_rest E p u
               = (Inl e, u\<lparr>sent := sent u @ [completion_request E p]\<rparr>)"
    if "sent u = sent t" for u
    using loop[OF that, of 1] by (simp add: generate_content_with_retry_rest_def)
  have res: "fst (resumir_com_gemini E links t) = JStr (unknown_error_message e)"
    if "links \<noteq> []" "analysis_prompt (join (nl @ ''- '') links) = p" for links
  proof -
    have "sent (display summary_started t) = sent t" by (simp add: display_def)
    from gen[OF this] show ?thesis
      using that by (intro resumir_failure_is_unknown) simp_all
  qed
  have here: "retrying E p n t = (Inl e, t\<lparr>sent := sent t @ [completion_request E p]\<rparr>)" for n
    by (rule loop) simp
  show ?thesis
    using e(2) nh gen[of t] here res by blast
qed

theorem malformed_candidate_raises_witness:
  "passes_status_check blocked_reply
   \<and> \<not> has_text_structure (JObj [(''finishReason'', JStr ''SAFETY'')])
   \<and> fst (generate_content_with_retry_rest (server (\<lambda>n. Reply blocked_reply))
            (analysis_prompt (join (nl @ ''- '') [''https://a.example''])) fresh)
       = Inl (KeyError (KStr ''content''))
   \<and> fst (resumir_com_gemini (server (\<lambda>n. Reply blocked_reply)) [''https://a.example''] fresh)
       = JStr (unknown_error_message (KeyError (KStr ''content'')))"
proof -
  let ?E = "server (\<lambda>n. Reply blocked_reply)"
  let ?p = "analysis_prompt (join (nl @ ''- '') [''https://a.example''])"
  have n: "net ?E (length (sent fresh)) (completion_request ?E ?p) = Reply blocked_reply"
    by (simp add: server_def)
  have s: "passes_status_check blocked_reply"
    by (simp add: passes_status_check_def blocked_reply_def answer_def)
  have j: "json_body blocked_reply
             = Inr (JObj [(''candidates'', JArr [JObj [(''finishReason'', JStr ''SAFETY'')]])])"
    by (simp add: blocked_reply_def answer_def)
  have c: "map_of [(''candidates'', JArr [JObj [(''finishReason'', JStr ''SAFETY'')]])] ''candidates''
             = Some (JArr (JObj [(''finishReason'', JStr ''SAFETY'')] # []))"
    by simp
  have l: "\<not> has_text_structure (JObj [(''finishReason'', JStr ''SAFETY'')])"
    by simp
  from malformed_candidate_raises[OF n s j c l] obtain e where
    e: "generate_content_with_retry_rest ?E ?p fresh
          = (Inl e, fresh\<lparr>sent := sent fresh @ [completion_request ?E ?p]\<rparr>)"
       "\<forall>links. links \<noteq> [] \<and> analysis_prompt (join (nl @ ''- '') links) = ?p
           \<longrightarrow> fst (resumir_com_gemini ?E links fresh) = JStr (unknown_error_message e)"
    by blast
  from e(1) have k: "e = KeyError (KStr ''content'')"
    by (simp add: blocked_run)
  have g: "fst (generate_content_with_retry_rest ?E ?p fresh) = Inl (KeyError (KStr ''content''))"
    by (simp add: blocked_run)
  have "[''https://a.example''] \<noteq> [] \<and> analysis_prompt (join (nl @ ''- '') [''https://a.example'']) = ?p"
    by simp
  with e(2) have "fst (resumir_com_gemini ?E [''https://a.example''] fresh)
                    = JStr (unknown_error_message e)"
    by blast
  with k s l g show ?thesis by simp
qed

text \<open>
  The claim C10 as it is stated fails on an answer whose first candidate has null for
  its ``content'': the exception is a \<^verbatim>\<open>TypeError\<close>.
\<close>

theorem null_content_is_type_error:
  "fst (generate_content_with_retry_rest (server (\<lambda>n. Reply null_content_reply)) ''p'' fresh)
     = Inl (TypeError (quote @ ''NoneType'' @ quote @ '' object is not subscriptable''))
   \<and> \<not> is_LookupError (TypeError (quote @ ''NoneType'' @ quote @ '' object is not subscriptable''))
   \<and> \<not> has_text_structure (JObj [(''content'', JNull)])"
  by (simp add: generate_content_with_retry_rest_def retrying.simps generate_content_attempt_def
        send_def server_def null_content_reply_def answer_def raise_for_status_def
        after_raise_for_status_def response_json_def fresh_def)

end
